theory Spec2Isabelle
  imports Complex_Main "HOL-Library.Product_Lexorder" "HOL-Library.Multiset"
begin

section \<open>Python values used by \<open>data_sources.py\<close>\<close>

subsection \<open>Exceptions\<close>

text \<open>
  Every exception a parser can let escape is a value.  \<open>DataFetchError\<close> is the
  repository's own class (it carries its message); the others are Python's built-in
  exceptions raised by indexing, \<open>float\<close>, \<open>int\<close> and attribute access on the decoded
  payloads.
\<close>

datatype py_error =
    DataFetchError string
  | IndexError
  | KeyError
  | ValueError
  | TypeError
  | AttributeError
  | OverflowError

subsection \<open>Strings\<close>

text \<open>
  A Python \<open>str\<close> is modelled as a \<open>string\<close>; a \<open>char\<close> stands for a code point
  below 256.  \<open>is_space\<close> is \<open>str.isspace\<close> on these code points, the set that
  \<open>str.strip()\<close>, \<open>float\<close> and the regular expression class \<open>\s\<close> use.
\<close>

definition is_space :: "char \<Rightarrow> bool" where
  "is_space c = (c \<in> set [CHR 0x09, CHR 0x0A, CHR 0x0B, CHR 0x0C, CHR 0x0D,
                            CHR 0x1C, CHR 0x1D, CHR 0x1E, CHR 0x1F, CHR 0x20,
                            CHR 0x85, CHR 0xA0])"

definition is_digit :: "char \<Rightarrow> bool" where
  "is_digit c = (c \<in> set ''0123456789'')"

definition is_alpha :: "char \<Rightarrow> bool" where
  \<comment> \<open>the class \<open>[A-Za-z]\<close>\<close>
  "is_alpha c = (c \<in> set ''ABCDEFGHIJKLMNOPQRSTUVWXYZabcdefghijklmnopqrstuvwxyz'')"

definition lower_char :: "char \<Rightarrow> char" where
  \<comment> \<open>\<open>str.lower\<close> on one character: ASCII and Latin-1 capitals move up by 32\<close>
  "lower_char c =
     (let n = (of_char c :: nat)
      in if (65 \<le> n \<and> n \<le> 90) \<or> (192 \<le> n \<and> n \<le> 222 \<and> n \<noteq> 215)
         then char_of (n + 32) else c)"

definition lower :: "string \<Rightarrow> string" where
  "lower s = map lower_char s"

definition rstrip_by :: "(char \<Rightarrow> bool) \<Rightarrow> string \<Rightarrow> string" where
  "rstrip_by P s = rev (dropWhile P (rev s))"

definition strip_by :: "(char \<Rightarrow> bool) \<Rightarrow> string \<Rightarrow> string" where
  "strip_by P s = rstrip_by P (dropWhile P s)"

definition strip :: "string \<Rightarrow> string" where
  \<comment> \<open>\<open>s.strip()\<close>\<close>
  "strip s = strip_by is_space s"

definition strip_chars :: "string \<Rightarrow> string \<Rightarrow> string" where
  \<comment> \<open>\<open>s.strip(chars)\<close>: removes leading and trailing characters that occur in \<open>chars\<close>\<close>
  "strip_chars chars s = strip_by (\<lambda>c. c \<in> set chars) s"

definition startswith :: "string \<Rightarrow> string \<Rightarrow> bool" where
  "startswith s p = (take (length p) s = p)"

definition endswith :: "string \<Rightarrow> string \<Rightarrow> bool" where
  "endswith s p = (length p \<le> length s \<and> drop (length s - length p) s = p)"

function replace :: "string \<Rightarrow> string \<Rightarrow> string \<Rightarrow> string" where
  \<comment> \<open>\<open>s.replace(old, new)\<close> for a non-empty \<open>old\<close>: leftmost, non-overlapping occurrences\<close>
  "replace old new [] = []"
| "replace old new (c # cs) =
     (if old \<noteq> [] \<and> startswith (c # cs) old
      then new @ replace old new (drop (length old) (c # cs))
      else c # replace old new cs)"
  by pat_completeness auto
termination
  by (relation "measure (\<lambda>(old, new, s). length s)") auto

subsection \<open>Floats\<close>

text \<open>
  A Python \<open>float\<close> is an IEEE-754 double: a finite value (kept as the rational it
  denotes, \<open>Fin 0\<close> being \<open>0.0\<close>), the negative zero \<open>NZero\<close>, an infinity or NaN.
  \<open>fl\<close> rounds a rational to the nearest double, ties to even, with gradual underflow
  and overflow to infinity; every arithmetic operation of the source rounds its exact
  result.
\<close>

datatype pyfloat = Fin rat | NZero | PInf | NInf | NaN

function bitlen :: "int \<Rightarrow> int" where
  \<comment> \<open>the number of binary digits of a positive integer\<close>
  "bitlen n = (if n \<le> 0 then 0 else 1 + bitlen (n div 2))"
  by pat_completeness auto
termination
  by (relation "measure nat") auto

declare bitlen.simps [simp del]

definition div_half_even :: "int \<Rightarrow> int \<Rightarrow> int" where
  \<comment> \<open>\<open>n / d\<close> rounded to the nearest integer, ties to the even one\<close>
  "div_half_even n d =
     (let q = n div d; r = n mod d
      in if 2 * r < d then q else if d < 2 * r then q + 1 else if even q then q else q + 1)"

definition ilog2_frac :: "int \<Rightarrow> int \<Rightarrow> int" where
  \<comment> \<open>the binary exponent of \<open>n / d\<close>: the \<open>e\<close> with \<open>2^e \<le> n / d < 2^(e+1)\<close>\<close>
  "ilog2_frac n d =
     (let k = bitlen n - bitlen d
      in if (0 \<le> k \<and> d * 2 ^ nat k \<le> n) \<or> (k < 0 \<and> d \<le> n * 2 ^ nat (- k))
         then k else k - 1)"

definition round_frac :: "int \<Rightarrow> int \<Rightarrow> int \<times> int" where
  \<comment> \<open>a positive \<open>n / d\<close> rounded to 53 significant bits (fewer below \<open>2^-1022\<close>):
      the result is \<open>m * 2^p\<close>\<close>
  "round_frac n d =
     (let e = ilog2_frac n d; p = max (e - 52) (- 1074);
          m = (if 0 \<le> p then div_half_even n (d * 2 ^ nat p)
               else div_half_even (n * 2 ^ nat (- p)) d)
      in (m, p))"

definition fl_signed :: "bool \<Rightarrow> rat \<Rightarrow> pyfloat" where
  \<comment> \<open>the double nearest to a magnitude \<open>a\<close> that is not negative, with the given sign\<close>
  "fl_signed neg a =
     (if a = 0 then (if neg then NZero else Fin 0)
      else let (n, d) = quotient_of a; (m, p) = round_frac n d
           in if 0 \<le> p \<and> 2 ^ 1024 \<le> m * 2 ^ nat p then (if neg then NInf else PInf)
              else if m = 0 then (if neg then NZero else Fin 0)
              else let v = (if 0 \<le> p then of_int (m * 2 ^ nat p)
                            else of_int m / of_int (2 ^ nat (- p)))
                   in Fin (if neg then - v else v))"

definition fl :: "rat \<Rightarrow> pyfloat" where
  "fl q = fl_signed (q < 0) \<bar>q\<bar>"

fun fneg :: "pyfloat \<Rightarrow> pyfloat" where
  "fneg (Fin q) = (if q = 0 then NZero else Fin (- q))"
| "fneg NZero = Fin 0"
| "fneg PInf = NInf"
| "fneg NInf = PInf"
| "fneg NaN = NaN"

fun is_negative :: "pyfloat \<Rightarrow> bool" where
  \<comment> \<open>the sign bit\<close>
  "is_negative (Fin q) = (q < 0)"
| "is_negative NZero = True"
| "is_negative NInf = True"
| "is_negative _ = False"

fun magnitude :: "pyfloat \<Rightarrow> rat" where
  \<comment> \<open>the absolute value of a finite float\<close>
  "magnitude (Fin q) = \<bar>q\<bar>"
| "magnitude _ = 0"

fun is_finite :: "pyfloat \<Rightarrow> bool" where
  "is_finite (Fin _) = True"
| "is_finite NZero = True"
| "is_finite _ = False"

definition is_zero :: "pyfloat \<Rightarrow> bool" where
  "is_zero a = (a = Fin 0 \<or> a = NZero)"

definition signed_inf :: "bool \<Rightarrow> pyfloat" where
  "signed_inf neg = (if neg then NInf else PInf)"

definition fmul :: "pyfloat \<Rightarrow> pyfloat \<Rightarrow> pyfloat" where
  \<comment> \<open>\<open>a * b\<close> on floats\<close>
  "fmul a b =
     (if a = NaN then NaN
      else if b = NaN then NaN
      else if is_finite a \<and> is_finite b
      then fl_signed (is_negative a \<noteq> is_negative b) (magnitude a * magnitude b)
      else if is_zero a then NaN
      else if is_zero b then NaN
      else signed_inf (is_negative a \<noteq> is_negative b))"

definition truthy :: "pyfloat \<Rightarrow> bool" where
  \<comment> \<open>the truth value of a float: only the zeros are false (NaN is true)\<close>
  "truthy a = (\<not> is_zero a)"

definition fdiv :: "pyfloat \<Rightarrow> pyfloat \<Rightarrow> pyfloat" where
  \<comment> \<open>\<open>a / b\<close> on floats.  For a zero \<open>b\<close> this is the IEEE quotient that a pandas column
      gives; Python's own \<open>/\<close> raises there, and the source tests for zero before it
      divides\<close>
  "fdiv a b =
     (if a = NaN then NaN
      else if b = NaN then NaN
      else if \<not> is_finite a
      then (if is_finite b then signed_inf (is_negative a \<noteq> is_negative b) else NaN)
      else if \<not> is_finite b then fl_signed (is_negative a \<noteq> is_negative b) 0
      else if is_zero b
      then (if is_zero a then NaN else signed_inf (is_negative a \<noteq> is_negative b))
      else fl_signed (is_negative a \<noteq> is_negative b) (magnitude a / magnitude b))"

subsection \<open>\<open>float(str)\<close>\<close>

text \<open>
  \<open>float\<close> applied to a string strips whitespace (the ASCII whitespace and the spaces
  beyond ASCII, but not the separators U+001C to U+001F), accepts single underscores between
  digits, an optional sign, and then either \<open>inf\<close>, \<open>infinity\<close> or \<open>nan\<close> in any case or a
  decimal literal with an optional exponent.  Anything else is a \<open>ValueError\<close>, which is
  \<open>None\<close> here.
\<close>

definition is_float_space :: "char \<Rightarrow> bool" where
  \<comment> \<open>what \<open>float\<close> and \<open>int\<close> strip from a string\<close>
  "is_float_space c = (c \<in> set [CHR 0x09, CHR 0x0A, CHR 0x0B, CHR 0x0C, CHR 0x0D, CHR 0x20,
                                  CHR 0x85, CHR 0xA0])"

definition digit_val :: "char \<Rightarrow> int" where
  "digit_val c = of_char c - 48"

definition int_of_digits :: "string \<Rightarrow> int" where
  "int_of_digits ds = foldl (\<lambda>a c. 10 * a + digit_val c) 0 ds"

fun underscores_ok :: "char \<Rightarrow> string \<Rightarrow> bool" where
  "underscores_ok prev [] = (prev \<noteq> CHR ''_'')"
| "underscores_ok prev (c # cs) =
     ((if c = CHR ''_'' then is_digit prev
       else if prev = CHR ''_'' then is_digit c else True)
      \<and> underscores_ok c cs)"

definition parse_sign :: "string \<Rightarrow> bool \<times> string" where
  "parse_sign s =
     (case s of
        [] \<Rightarrow> (False, [])
      | c # cs \<Rightarrow> if c = CHR ''-'' then (True, cs)
                  else if c = CHR ''+'' then (False, cs) else (False, s))"

definition parse_exponent :: "string \<Rightarrow> int option" where
  "parse_exponent r =
     (case r of
        [] \<Rightarrow> Some 0
      | c # cs \<Rightarrow>
          if c = CHR ''e'' \<or> c = CHR ''E''
          then (let (neg, ds) = parse_sign cs
                in if ds \<noteq> [] \<and> list_all is_digit ds
                   then Some (if neg then - int_of_digits ds else int_of_digits ds)
                   else None)
          else None)"

definition pow10 :: "int \<Rightarrow> rat" where
  "pow10 e = (if 0 \<le> e then of_int (10 ^ nat e) else 1 / of_int (10 ^ nat (- e)))"

definition parse_decimal :: "string \<Rightarrow> rat option" where
  \<comment> \<open>\<open>digits [. digits] [exponent]\<close> or \<open>. digits [exponent]\<close>, as its exact value\<close>
  "parse_decimal s =
     (let ip = takeWhile is_digit s; r1 = dropWhile is_digit s;
          (fp, r2) = (case r1 of
                        [] \<Rightarrow> ([], [])
                      | c # cs \<Rightarrow> if c = CHR ''.''
                                  then (takeWhile is_digit cs, dropWhile is_digit cs)
                                  else ([], r1))
      in if ip = [] \<and> fp = [] then None
         else (case parse_exponent r2 of
                 None \<Rightarrow> None
               | Some e \<Rightarrow> Some (of_int (int_of_digits (ip @ fp)) * pow10 (e - int (length fp)))))"

definition py_float :: "string \<Rightarrow> pyfloat option" where
  "py_float s0 =
     (let s1 = strip_by is_float_space s0
      in if CHR 0x00 \<in> set s1 then None
         else if \<not> underscores_ok (CHR 0x00) s1 then None
         else let (neg, body) = parse_sign (filter (\<lambda>c. c \<noteq> CHR ''_'') s1)
              in if lower body = ''inf'' \<or> lower body = ''infinity''
                 then Some (if neg then NInf else PInf)
                 else if lower body = ''nan'' then Some NaN
                 else (case parse_decimal body of
                         None \<Rightarrow> None
                       | Some q \<Rightarrow> Some (fl_signed neg q)))"

section \<open>The number normaliser \<open>_to_number\<close>\<close>

definition multipliers :: "string \<Rightarrow> pyfloat option" where
  "multipliers k =
     (if k = ''m'' then Some (Fin 1000000)
      else if k = ''b'' then Some (Fin 1000000000) else None)"

definition clean :: "string \<Rightarrow> string" where
  \<comment> \<open>the chain of \<open>strip('()')\<close> and \<open>replace\<close> calls on the stripped value\<close>
  "clean v =
     replace ''%'' ''''
       (replace ''BTC'' ''''
         (replace ''ETH'' ''''
           (replace ''SOL'' ''''
             (replace ''+'' ''''
               (replace ''$'' ''''
                 (replace '','' '''' (strip_chars ''()'' v)))))))"

definition to_number :: "string \<Rightarrow> py_error + pyfloat" where
  "to_number value0 =
     (let v = strip value0
      in if v = [] \<or> v = ''-'' then Inr NaN
         else
           let negative = (startswith v ''('' \<and> endswith v '')'');
               cleaned = clean v
           in if cleaned = [] then Inl IndexError \<comment> \<open>\<open>cleaned[-1]\<close> on the empty string\<close>
              else
                let suffix = (if multipliers [lower_char (last cleaned)] \<noteq> None
                              then [lower_char (last cleaned)] else []);
                    cleaned_num = (if suffix \<noteq> [] then butlast cleaned else cleaned)
                in (case py_float cleaned_num of
                      None \<Rightarrow> Inr NaN
                    | Some number \<Rightarrow>
                        let number1 = (case multipliers suffix of
                                         Some k \<Rightarrow> fmul number k
                                       | None \<Rightarrow> number);
                            number2 = (if negative then fneg number1 else number1)
                        in Inr number2))"

section \<open>Text and table helpers\<close>

subsection \<open>Lines, fields and searching\<close>

definition is_linebreak :: "char \<Rightarrow> bool" where
  \<comment> \<open>the line boundaries of \<open>str.splitlines\<close> below code point 256\<close>
  "is_linebreak c = (c \<in> set [CHR 0x0A, CHR 0x0B, CHR 0x0C, CHR 0x0D,
                                CHR 0x1C, CHR 0x1D, CHR 0x1E, CHR 0x85])"

function splitlines :: "string \<Rightarrow> string list" where
  \<comment> \<open>\<open>s.splitlines()\<close>: \<open>\r\n\<close> is one boundary, and a final boundary opens no empty line\<close>
  "splitlines [] = []"
| "splitlines (c # cs) =
     (let line = takeWhile (\<lambda>x. \<not> is_linebreak x) (c # cs);
          rest = dropWhile (\<lambda>x. \<not> is_linebreak x) (c # cs)
      in case rest of
           [] \<Rightarrow> [line]
         | b # bs \<Rightarrow>
             line # splitlines (if b = CHR 0x0D \<and> startswith bs [CHR 0x0A] then tl bs else bs))"
  by pat_completeness auto
termination
proof (relation "measure length", goal_cases)
  case 1
  show ?case by simp
next
  case (2 c cs line rest b bs)
  have "length (dropWhile (\<lambda>x. \<not> is_linebreak x) (c # cs)) \<le> length (c # cs)"
    by (rule length_dropWhile_le)
  with 2 have "length (b # bs) \<le> length (c # cs)" by metis
  then have "length bs < length (c # cs)" by simp
  moreover have "length (tl bs) \<le> length bs" by simp
  ultimately show ?case by (simp del: length_tl)
qed

fun split_on :: "char \<Rightarrow> string \<Rightarrow> string list" where
  \<comment> \<open>\<open>s.split(d)\<close> for a one-character separator: never empty\<close>
  "split_on d [] = [[]]"
| "split_on d (c # cs) =
     (if c = d then [] # split_on d cs
      else (case split_on d cs of
              [] \<Rightarrow> [[c]]
            | x # xs \<Rightarrow> (c # x) # xs))"

fun find_at :: "string \<Rightarrow> string \<Rightarrow> nat \<Rightarrow> nat option" where
  "find_at sub [] i = (if sub = [] then Some i else None)"
| "find_at sub (c # cs) i =
     (if startswith (c # cs) sub then Some i else find_at sub cs (Suc i))"

definition find :: "string \<Rightarrow> string \<Rightarrow> nat \<Rightarrow> nat option" where
  \<comment> \<open>\<open>s.find(sub, start)\<close>; \<open>None\<close> is Python's \<open>-1\<close>\<close>
  "find s sub start = (if start \<le> length s then find_at sub (drop start s) start else None)"

definition slice :: "string \<Rightarrow> nat \<Rightarrow> nat \<Rightarrow> string" where
  \<comment> \<open>\<open>s[a:b]\<close> for indices that are not negative\<close>
  "slice s a b = take (b - a) (drop a s)"

definition py_isdigit :: "string \<Rightarrow> bool" where
  \<comment> \<open>\<open>s.isdigit()\<close>: below code point 256 the digits are \<open>0\<close> to \<open>9\<close> and the
      superscripts one, two and three\<close>
  "py_isdigit s =
     (s \<noteq> [] \<and> list_all (\<lambda>c. c \<in> set ''0123456789'' \<or> c \<in> set [CHR 0xB2, CHR 0xB3, CHR 0xB9]) s)"

function str_nat :: "nat \<Rightarrow> string" where
  "str_nat n = (if n < 10 then [char_of (48 + n)] else str_nat (n div 10) @ [char_of (48 + n mod 10)])"
  by pat_completeness auto
termination
  by (relation "measure id") auto

declare str_nat.simps [simp del]

definition str_int :: "int \<Rightarrow> string" where
  \<comment> \<open>\<open>str\<close> of an integer\<close>
  "str_int i = (if i < 0 then CHR ''-'' # str_nat (nat (- i)) else str_nat (nat i))"

subsection \<open>The HTTP access layer\<close>

text \<open>
  A response carries its status code, its text and, when the text is a JSON document,
  the decoded value.  The remote side is a function from the requested URL to the
  response it gives; a request that gets no response at all is outside the model.
\<close>

datatype json =
    JNull
  | JBool bool
  | JInt int
  | JFloat pyfloat
  | JStr string
  | JArr "json list"
  | JObj "(string \<times> json) list"

record http_response =
  status_code :: int
  body_text :: string
  json_body :: "json option"

definition failed_to_fetch :: "string \<Rightarrow> int \<Rightarrow> py_error" where
  "failed_to_fetch url status =
     DataFetchError (''Failed to fetch '' @ url @ '' (status '' @ str_int status @ '')'')"

definition get_text :: "(string \<Rightarrow> http_response) \<Rightarrow> string \<Rightarrow> py_error + string" where
  "get_text server url =
     (let resp = server url
      in if status_code resp \<noteq> 200 then Inl (failed_to_fetch url (status_code resp))
         else Inr (body_text resp))"

definition request_json :: "(string \<Rightarrow> http_response) \<Rightarrow> string \<Rightarrow> py_error + json" where
  "request_json server url =
     (let resp = server url
      in if status_code resp \<noteq> 200 then Inl (failed_to_fetch url (status_code resp))
         else (case json_body resp of
                 None \<Rightarrow> Inl (DataFetchError (''Invalid JSON payload from '' @ url))
               | Some payload \<Rightarrow> Inr payload))"

subsection \<open>Calendar dates\<close>

text \<open>
  A date is its year, month and day, ordered lexicographically.  \<open>to_datetime\<close> with
  \<open>errors="coerce"\<close> gives \<open>NaT\<close> (here \<open>None\<close>) for a string the format does not match
  and for a day the month does not have.  (Before version 3, pandas also gives \<open>NaT\<close>
  for a date outside the years 1677 to 2262; no statement below depends on which dates
  parse.)
\<close>

type_synonym pydate = "int \<times> int \<times> int"

definition is_leap :: "int \<Rightarrow> bool" where
  "is_leap y = (if y mod 100 = 0 then y mod 400 = 0 else y mod 4 = 0)"

definition days_in_month :: "int \<Rightarrow> int \<Rightarrow> int" where
  "days_in_month y m =
     (if m = 2 then (if is_leap y then 29 else 28)
      else if m \<in> set [4, 6, 9, 11] then 30 else 31)"

definition valid_date :: "pydate \<Rightarrow> bool" where
  "valid_date d =
     (case d of (y, m, dd) \<Rightarrow>
        1 \<le> y \<and> y \<le> 9999 \<and> 1 \<le> m \<and> m \<le> 12 \<and> 1 \<le> dd \<and> dd \<le> days_in_month y m)"

definition checked_date :: "pydate \<Rightarrow> pydate option" where
  "checked_date d = (if valid_date d then Some d else None)"

definition month_of_abbr :: "string \<Rightarrow> int option" where
  \<comment> \<open>\<open>%b\<close>: the abbreviated English month name, in any case\<close>
  "month_of_abbr s =
     map_of [(''jan'', 1), (''feb'', 2), (''mar'', 3), (''apr'', 4), (''may'', 5), (''jun'', 6),
             (''jul'', 7), (''aug'', 8), (''sep'', 9), (''oct'', 10), (''nov'', 11), (''dec'', 12)]
       (lower s)"

fun date_shape :: "string \<Rightarrow> bool" where
  \<comment> \<open>the group \<open>\d{2} [A-Za-z]{3} \d{4}\<close>\<close>
  "date_shape [d1, d2, s1, a1, a2, a3, s2, y1, y2, y3, y4] =
     (is_digit d1 \<and> is_digit d2 \<and> s1 = CHR '' '' \<and> is_alpha a1 \<and> is_alpha a2 \<and> is_alpha a3
      \<and> s2 = CHR '' '' \<and> is_digit y1 \<and> is_digit y2 \<and> is_digit y3 \<and> is_digit y4)"
| "date_shape _ = False"

definition to_datetime_dmy :: "string \<Rightarrow> pydate option" where
  \<comment> \<open>\<open>pd.to_datetime(s, format="%d %b %Y", errors="coerce")\<close> on a string of the shape
      the date pattern captures\<close>
  "to_datetime_dmy s =
     (if date_shape s
      then (case month_of_abbr (take 3 (drop 3 s)) of
              None \<Rightarrow> None
            | Some m \<Rightarrow> checked_date (int_of_digits (drop 7 s), m, int_of_digits (take 2 s)))
      else None)"

definition to_datetime_ymd :: "string \<Rightarrow> pydate option" where
  \<comment> \<open>\<open>pd.to_datetime(s, format="%Y-%m-%d", errors="coerce")\<close>: four digits, then a month
      and a day of one or two digits\<close>
  "to_datetime_ymd s =
     (case split_on (CHR ''-'') s of
        [y, m, d] \<Rightarrow>
          if length y = 4 \<and> list_all is_digit y
             \<and> (length m = 1 \<or> length m = 2) \<and> list_all is_digit m
             \<and> (length d = 1 \<or> length d = 2) \<and> list_all is_digit d
          then checked_date (int_of_digits y, int_of_digits m, int_of_digits d)
          else None
      | _ \<Rightarrow> None)"


section \<open>The parsers of pipe-delimited text\<close>

subsection \<open>ETF daily flows\<close>

record dated =
  date :: pydate

record flow_row = dated +
  date_str :: string
  total_flow :: pyfloat

definition match_date_pattern :: "string \<Rightarrow> string option" where
  \<comment> \<open>\<open>date_pattern.match(line)\<close> for \<open>^\|\s*(\d{2} [A-Za-z]{3} \d{4})\s*\|\<close>: the group\<close>
  "match_date_pattern line =
     (case line of
        [] \<Rightarrow> None
      | c # cs \<Rightarrow>
          if c = CHR ''|''
          then (let r = dropWhile is_space cs; g = take 11 r;
                    r2 = dropWhile is_space (drop 11 r)
                in if date_shape g \<and> startswith r2 ''|'' then Some g else None)
          else None)"

definition table_cells :: "string \<Rightarrow> string list" where
  \<comment> \<open>\<open>[p.strip() for p in line.strip('|').split('|')]\<close>\<close>
  "table_cells line = map strip (split_on (CHR ''|'') (strip_chars ''|'' line))"

fun farside_rows :: "string list \<Rightarrow> py_error + (string \<times> pyfloat) list" where
  \<comment> \<open>the loop over the lines; a raise ends it\<close>
  "farside_rows [] = Inr []"
| "farside_rows (line # rest) =
     (if \<not> startswith (strip line) ''|'' then farside_rows rest
      else (case match_date_pattern line of
              None \<Rightarrow> farside_rows rest
            | Some ds \<Rightarrow>
                (let parts = table_cells line
                 in if parts = [] then farside_rows rest
                    else (case to_number (last parts) of
                            Inl e \<Rightarrow> Inl e
                          | Inr v \<Rightarrow>
                              (case farside_rows rest of
                                 Inl e \<Rightarrow> Inl e
                               | Inr rows \<Rightarrow> Inr ((ds, v) # rows))))))"

definition flow_of :: "string \<times> pyfloat \<Rightarrow> flow_row option" where
  \<comment> \<open>the \<open>date\<close> column of one row; \<open>None\<close> is a row that \<open>dropna\<close> removes\<close>
  "flow_of r =
     (case to_datetime_dmy (fst r) of
        None \<Rightarrow> None
      | Some d \<Rightarrow> Some \<lparr>date = d, date_str = fst r, total_flow = snd r\<rparr>)"

definition parse_farside_daily_flows :: "string \<Rightarrow> py_error + flow_row list" where
  \<comment> \<open>rows with the same date are kept in the order of the text; pandas leaves the
      order of equal keys open\<close>
  "parse_farside_daily_flows txt =
     (case farside_rows (splitlines txt) of
        Inl e \<Rightarrow> Inl e
      | Inr rows \<Rightarrow>
          if rows = [] then Inl (DataFetchError ''No daily ETF flow rows found in Farside table'')
          else Inr (sort_key date (List.map_filter flow_of rows)))"

definition proxied_farside_url :: "string \<Rightarrow> string" where
  "proxied_farside_url path =
     ''https://r.jina.ai/https://farside.co.uk/'' @ strip_chars ''/'' path @ ''/''"

definition fetch_btc_etf_flows :: "(string \<Rightarrow> http_response) \<Rightarrow> py_error + flow_row list" where
  "fetch_btc_etf_flows server =
     (case get_text server (proxied_farside_url ''btc'') of
        Inl e \<Rightarrow> Inl e
      | Inr txt \<Rightarrow> parse_farside_daily_flows txt)"

definition fetch_eth_etf_flows :: "(string \<Rightarrow> http_response) \<Rightarrow> py_error + flow_row list" where
  "fetch_eth_etf_flows server =
     (case get_text server (proxied_farside_url ''eth'') of
        Inl e \<Rightarrow> Inl e
      | Inr txt \<Rightarrow> parse_farside_daily_flows txt)"

subsection \<open>Treasury holdings\<close>

text \<open>
  A row of a treasury table keeps the text of its columns and the number decoded from
  the holding column.
\<close>

record treasury_row =
  cells :: "string list"
  holding :: pyfloat

fun apply_to_number :: "nat \<Rightarrow> string list list \<Rightarrow> py_error + treasury_row list" where
  \<comment> \<open>\<open>df[column].apply(_to_number)\<close>, the column given by its position\<close>
  "apply_to_number col [] = Inr []"
| "apply_to_number col (r # rs) =
     (case to_number (r ! col) of
        Inl e \<Rightarrow> Inl e
      | Inr x \<Rightarrow>
          (case apply_to_number col rs of
             Inl e \<Rightarrow> Inl e
           | Inr out \<Rightarrow> Inr (\<lparr>cells = r, holding = x\<rparr> # out)))"

fun fkey :: "pyfloat \<Rightarrow> int \<times> rat" where
  \<comment> \<open>the order of the floats that are not NaN\<close>
  "fkey NInf = (- 1, 0)"
| "fkey (Fin q) = (0, q)"
| "fkey NZero = (0, 0)"
| "fkey PInf = (1, 0)"
| "fkey NaN = (2, 0)"

definition sort_values_desc :: "treasury_row list \<Rightarrow> treasury_row list" where
  \<comment> \<open>\<open>sort_values(column, ascending=False)\<close>: the rows without NaN are reversed, sorted
      ascending and reversed again, and the NaN rows follow; rows with equal holdings are
      kept in their order, which pandas leaves open\<close>
  "sort_values_desc rows =
     rev (sort_key (\<lambda>r. fkey (holding r)) (rev (filter (\<lambda>r. holding r \<noteq> NaN) rows)))
     @ filter (\<lambda>r. holding r = NaN) rows"

definition head :: "int \<Rightarrow> 'a list \<Rightarrow> 'a list" where
  \<comment> \<open>\<open>df.head(n)\<close>: a negative \<open>n\<close> leaves out the last \<open>-n\<close> rows\<close>
  "head n xs = (if 0 \<le> n then take (nat n) xs else take (length xs - nat (- n)) xs)"

fun btc_rows :: "string list \<Rightarrow> string list list" where
  "btc_rows [] = []"
| "btc_rows (line # rest) =
     (if \<not> startswith line ''|'' then btc_rows rest
      else (let parts = table_cells line
            in if length parts < 9 then btc_rows rest
               else if parts ! 0 \<in> set [''Ticker'', ''''] then btc_rows rest
               else take 9 parts # btc_rows rest))"

definition fetch_btc_treasury_holdings ::
  "(string \<Rightarrow> http_response) \<Rightarrow> int \<Rightarrow> py_error + treasury_row list" where
  "fetch_btc_treasury_holdings server top_n =
     (case get_text server (proxied_farside_url ''bitcoin-treasury-companies'') of
        Inl e \<Rightarrow> Inl e
      | Inr txt \<Rightarrow>
          (let rows = btc_rows (splitlines txt)
           in if rows = [] then Inl (DataFetchError ''No BTC treasury rows parsed'')
              else (case apply_to_number 8 rows of
                      Inl e \<Rightarrow> Inl e
                    | Inr df \<Rightarrow> Inr (head top_n (sort_values_desc df)))))"

fun eth_rows :: "string list \<Rightarrow> string list list" where
  "eth_rows [] = []"
| "eth_rows (line # rest) =
     (if \<not> startswith line ''|'' then eth_rows rest
      else (let parts = table_cells line
            in if length parts < 8 then eth_rows rest
               else if parts ! 0 = ''Company Name'' then eth_rows rest
               else take 8 parts # eth_rows rest))"

definition fetch_eth_treasury_holdings ::
  "(string \<Rightarrow> http_response) \<Rightarrow> int \<Rightarrow> py_error + treasury_row list" where
  "fetch_eth_treasury_holdings server top_n =
     (case get_text server ''https://r.jina.ai/https://ethereumtreasuries.net/'' of
        Inl e \<Rightarrow> Inl e
      | Inr txt \<Rightarrow>
          (let rows = eth_rows (splitlines txt)
           in if rows = [] then Inl (DataFetchError ''No Ethereum treasury data parsed'')
              else (case apply_to_number 3 rows of
                      Inl e \<Rightarrow> Inl e
                    | Inr df \<Rightarrow> Inr (head top_n (sort_values_desc df)))))"

fun sol_rows :: "string list \<Rightarrow> string list list" where
  "sol_rows [] = []"
| "sol_rows (line # rest) =
     (if \<not> startswith line ''|'' then sol_rows rest
      else (let parts = table_cells line
            in if length parts < 8 then sol_rows rest
               else if parts ! 0 = ''Company'' then sol_rows rest
               else (let parts1 = (if py_isdigit (parts ! 0) then tl parts else parts)
                     in if length parts1 < 7 then sol_rows rest
                        else take 7 parts1 # sol_rows rest)))"

definition fetch_sol_treasury_holdings ::
  "(string \<Rightarrow> http_response) \<Rightarrow> int \<Rightarrow> py_error + treasury_row list" where
  "fetch_sol_treasury_holdings server top_n =
     (case get_text server ''https://r.jina.ai/https://www.coingecko.com/en/treasuries/solana'' of
        Inl e \<Rightarrow> Inl e
      | Inr txt \<Rightarrow>
          (let rows = sol_rows (splitlines txt)
           in if rows = [] then Inl (DataFetchError ''No Solana treasury table detected'')
              else (case apply_to_number 3 rows of
                      Inl e \<Rightarrow> Inl e
                    | Inr df \<Rightarrow> Inr (head top_n (sort_values_desc df)))))"

section \<open>The sentiment index (AHR999)\<close>

record ahr_row = dated +
  ahr :: pyfloat

definition anchor :: string where
  \<comment> \<open>\<open>name:\\"AHR999\<close>: the backslash and the quote are written by their codes\<close>
  "anchor = ''name:'' @ [CHR 0x5C, CHR 0x22] @ ''AHR999''"

definition data_key :: string where
  "data_key = ''data:[''"

definition labels_key :: string where
  "labels_key = ''labels:[''"

definition raw_values_of :: "string \<Rightarrow> string list" where
  \<comment> \<open>\<open>[v.strip() for v in block.split(',') if v.strip()]\<close>\<close>
  "raw_values_of block = filter (\<lambda>v. v \<noteq> []) (map strip (split_on (CHR '','') block))"

definition raw_labels_of :: "string \<Rightarrow> string list" where
  \<comment> \<open>\<open>[l.strip().strip('"') for l in block.split(',') if l.strip()]\<close>\<close>
  "raw_labels_of block =
     map (strip_chars [CHR 0x22]) (filter (\<lambda>l. l \<noteq> []) (map strip (split_on (CHR '','') block)))"

fun floats_of :: "string list \<Rightarrow> py_error + pyfloat list" where
  \<comment> \<open>\<open>[float(v) for v in raw_values]\<close>\<close>
  "floats_of [] = Inr []"
| "floats_of (v # vs) =
     (case py_float v of
        None \<Rightarrow> Inl ValueError
      | Some x \<Rightarrow> (case floats_of vs of Inl e \<Rightarrow> Inl e | Inr xs \<Rightarrow> Inr (x # xs)))"

definition ahr_of :: "pydate option \<times> pyfloat \<Rightarrow> ahr_row option" where
  \<comment> \<open>one row of the frame; \<open>None\<close> is a row that \<open>dropna\<close> removes\<close>
  "ahr_of r =
     (case fst r of
        None \<Rightarrow> None
      | Some d \<Rightarrow> if snd r = NaN then None else Some \<lparr>date = d, ahr = snd r\<rparr>)"

definition parse_ahr :: "string \<Rightarrow> py_error + ahr_row list" where
  \<comment> \<open>\<open>fetch_ahr_timeseries\<close> after the page has been fetched\<close>
  "parse_ahr html =
     (case find html anchor 0 of
        None \<Rightarrow> Inl (DataFetchError ''Unable to locate AHR999 series in CaiZi page'')
      | Some anchor_idx \<Rightarrow>
          (case (find html data_key anchor_idx, find html labels_key anchor_idx) of
             (Some data_start, Some labels_start) \<Rightarrow>
               (case (find html '']'' data_start, find html '']'' labels_start) of
                  (Some data_end, Some labels_end) \<Rightarrow>
                    (let raw_values =
                           raw_values_of (slice html (data_start + length data_key) data_end);
                         raw_labels =
                           raw_labels_of (slice html (labels_start + length labels_key) labels_end)
                     in if length raw_values \<noteq> length raw_labels
                        then Inl (DataFetchError ''Mismatched label/value counts in AHR data'')
                        else (case floats_of raw_values of
                                Inl e \<Rightarrow> Inl e
                              | Inr vals \<Rightarrow>
                                  Inr (sort_key date
                                        (List.map_filter ahr_of
                                          (zip (map to_datetime_ymd raw_labels) vals)))))
                | _ \<Rightarrow> Inl (DataFetchError ''Malformed AHR999 script section''))
           | _ \<Rightarrow> Inl (DataFetchError ''Missing data or labels block for AHR999'')))"

definition ahr_url :: string where
  "ahr_url = ''https://www.caizi.fun/trade/data/ahr''"

definition fetch_ahr_timeseries :: "(string \<Rightarrow> http_response) \<Rightarrow> py_error + ahr_row list" where
  "fetch_ahr_timeseries server =
     (case get_text server ahr_url of
        Inl e \<Rightarrow> Inl e
      | Inr html \<Rightarrow> parse_ahr html)"


section \<open>The parsers of JSON payloads\<close>

subsection \<open>Python operations on decoded JSON\<close>

text \<open>
  \<open>json.loads\<close> gives \<open>None\<close>, \<open>bool\<close>, \<open>int\<close>, \<open>float\<close>, \<open>str\<close>, \<open>list\<close> and \<open>dict\<close>
  values; of a key that a document repeats the last value counts.  Each operation below
  raises what Python raises when the value has another type than the code expects.
\<close>

definition lookup :: "(string \<times> json) list \<Rightarrow> string \<Rightarrow> json option" where
  "lookup kvs k = map_of (rev kvs) k"

definition dict_get :: "json \<Rightarrow> string \<Rightarrow> py_error + json" where
  \<comment> \<open>\<open>obj.get(key)\<close>\<close>
  "dict_get obj k =
     (case obj of
        JObj kvs \<Rightarrow> (case lookup kvs k of None \<Rightarrow> Inr JNull | Some v \<Rightarrow> Inr v)
      | _ \<Rightarrow> Inl AttributeError)"

definition dict_get_default :: "json \<Rightarrow> string \<Rightarrow> json \<Rightarrow> py_error + json" where
  \<comment> \<open>\<open>obj.get(key, default)\<close>\<close>
  "dict_get_default obj k dflt =
     (case obj of
        JObj kvs \<Rightarrow> (case lookup kvs k of None \<Rightarrow> Inr dflt | Some v \<Rightarrow> Inr v)
      | _ \<Rightarrow> Inl AttributeError)"

definition subscript_key :: "json \<Rightarrow> string \<Rightarrow> py_error + json" where
  \<comment> \<open>\<open>obj[key]\<close> for a string key\<close>
  "subscript_key obj k =
     (case obj of
        JObj kvs \<Rightarrow> (case lookup kvs k of None \<Rightarrow> Inl KeyError | Some v \<Rightarrow> Inr v)
      | _ \<Rightarrow> Inl TypeError)"

definition subscript_index :: "json \<Rightarrow> nat \<Rightarrow> py_error + json" where
  \<comment> \<open>\<open>obj[i]\<close> for an index \<open>i\<close> that is not negative; no key of a decoded object is an
      integer\<close>
  "subscript_index obj i =
     (case obj of
        JArr xs \<Rightarrow> if i < length xs then Inr (xs ! i) else Inl IndexError
      | JStr s \<Rightarrow> if i < length s then Inr (JStr [s ! i]) else Inl IndexError
      | JObj kvs \<Rightarrow> Inl KeyError
      | _ \<Rightarrow> Inl TypeError)"

definition json_truthy :: "json \<Rightarrow> bool" where
  "json_truthy v =
     (case v of
        JNull \<Rightarrow> False
      | JBool b \<Rightarrow> b
      | JInt n \<Rightarrow> n \<noteq> 0
      | JFloat x \<Rightarrow> truthy x
      | JStr s \<Rightarrow> s \<noteq> []
      | JArr xs \<Rightarrow> xs \<noteq> []
      | JObj kvs \<Rightarrow> kvs \<noteq> [])"

fun first_keys :: "string list \<Rightarrow> string list \<Rightarrow> string list" where
  \<comment> \<open>the keys of a dict in the order of their first occurrence\<close>
  "first_keys seen [] = []"
| "first_keys seen (k # ks) =
     (if k \<in> set seen then first_keys seen ks else k # first_keys (k # seen) ks)"

definition iterate :: "json \<Rightarrow> py_error + json list" where
  \<comment> \<open>the values a \<open>for\<close> loop takes: a dict gives its keys, a string its characters\<close>
  "iterate v =
     (case v of
        JArr xs \<Rightarrow> Inr xs
      | JObj kvs \<Rightarrow> Inr (map JStr (first_keys [] (map fst kvs)))
      | JStr s \<Rightarrow> Inr (map (\<lambda>c. JStr [c]) s)
      | _ \<Rightarrow> Inl TypeError)"

definition float_of_int :: "int \<Rightarrow> py_error + pyfloat" where
  "float_of_int n = (if is_finite (fl (of_int n)) then Inr (fl (of_int n)) else Inl OverflowError)"

definition py_float_json :: "json \<Rightarrow> py_error + pyfloat" where
  \<comment> \<open>\<open>float(v)\<close>\<close>
  "py_float_json v =
     (case v of
        JStr s \<Rightarrow> (case py_float s of None \<Rightarrow> Inl ValueError | Some x \<Rightarrow> Inr x)
      | JInt n \<Rightarrow> float_of_int n
      | JFloat x \<Rightarrow> Inr x
      | JBool b \<Rightarrow> Inr (Fin (if b then 1 else 0))
      | _ \<Rightarrow> Inl TypeError)"

definition py_int_str :: "string \<Rightarrow> int option" where
  \<comment> \<open>\<open>int(s)\<close>: whitespace around an optional sign and decimal digits, single underscores
      between digits\<close>
  "py_int_str s0 =
     (let (neg, body) = parse_sign (strip_by is_float_space s0)
      in if body \<noteq> [] \<and> list_all (\<lambda>c. is_digit c \<or> c = CHR ''_'') body
            \<and> underscores_ok (CHR 0x00) body
         then Some (if neg then - int_of_digits (filter (\<lambda>c. c \<noteq> CHR ''_'') body)
                    else int_of_digits (filter (\<lambda>c. c \<noteq> CHR ''_'') body))
         else None)"

definition trunc :: "rat \<Rightarrow> int" where
  "trunc q = (if 0 \<le> q then \<lfloor>q\<rfloor> else - \<lfloor>- q\<rfloor>)"

definition py_int_json :: "json \<Rightarrow> py_error + int" where
  \<comment> \<open>\<open>int(v)\<close>\<close>
  "py_int_json v =
     (case v of
        JStr s \<Rightarrow> (case py_int_str s of None \<Rightarrow> Inl ValueError | Some n \<Rightarrow> Inr n)
      | JInt n \<Rightarrow> Inr n
      | JFloat x \<Rightarrow> (case x of
                       Fin q \<Rightarrow> Inr (trunc q)
                     | NZero \<Rightarrow> Inr 0
                     | NaN \<Rightarrow> Inl ValueError
                     | _ \<Rightarrow> Inl OverflowError)
      | JBool b \<Rightarrow> Inr (if b then 1 else 0)
      | _ \<Rightarrow> Inl TypeError)"

subsection \<open>Global broad money (M2)\<close>

record m2_row =
  year :: int
  m2_value :: pyfloat
  value_trillion :: pyfloat

fun m2_rows :: "json list \<Rightarrow> py_error + (int \<times> pyfloat) list" where
  \<comment> \<open>the loop over the records: a record without value or date, or with a value that
      \<open>float\<close> rejects, is passed over\<close>
  "m2_rows [] = Inr []"
| "m2_rows (entry # rest) =
     (case dict_get entry ''value'' of
        Inl e \<Rightarrow> Inl e
      | Inr v \<Rightarrow>
          (case dict_get entry ''date'' of
             Inl e \<Rightarrow> Inl e
           | Inr y \<Rightarrow>
               if v = JNull \<or> y = JNull then m2_rows rest
               else (case py_float_json v of
                       Inl e \<Rightarrow> if e = TypeError \<or> e = ValueError then m2_rows rest else Inl e
                     | Inr numeric \<Rightarrow>
                         (case py_int_json y of
                            Inl e \<Rightarrow> Inl e
                          | Inr yr \<Rightarrow>
                              (case m2_rows rest of
                                 Inl e \<Rightarrow> Inl e
                               | Inr rows \<Rightarrow> Inr ((yr, numeric) # rows))))))"

definition m2_url :: string where
  "m2_url = ''https://api.worldbank.org/v2/country/WLD/indicator/''
            @ ''FM.LBL.BMNY.CN?format=json&per_page=600''"

definition fetch_global_m2 :: "(string \<Rightarrow> http_response) \<Rightarrow> py_error + m2_row list" where
  "fetch_global_m2 server =
     (case request_json server m2_url of
        Inl e \<Rightarrow> Inl e
      | Inr payload \<Rightarrow>
          (case subscript_index payload 1 of
             Inl e \<Rightarrow> Inl e
           | Inr records \<Rightarrow>
               (case iterate records of
                  Inl e \<Rightarrow> Inl e
                | Inr entries \<Rightarrow>
                    (case m2_rows entries of
                       Inl e \<Rightarrow> Inl e
                     | Inr rows \<Rightarrow>
                         if rows = []
                         then Inl (DataFetchError ''World Bank M2 dataset returned no usable data'')
                         else Inr (map (\<lambda>r. \<lparr>year = fst r, m2_value = snd r,
                                               value_trillion = fdiv (snd r) (Fin 1000000000000)\<rparr>)
                                    (sort_key fst rows))))))"

subsection \<open>The market-cap snapshot\<close>

record MarketCapSnapshot =
  btc_price :: pyfloat
  btc_market_cap :: pyfloat
  gold_price :: pyfloat
  gold_market_cap :: pyfloat

definition btc_vs_gold_ratio :: "MarketCapSnapshot \<Rightarrow> pyfloat" where
  "btc_vs_gold_ratio s =
     (if \<not> truthy (gold_market_cap s) then NaN
      else fdiv (btc_market_cap s) (gold_market_cap s))"

definition gold_vs_btc_upside :: "MarketCapSnapshot \<Rightarrow> pyfloat" where
  "gold_vs_btc_upside s =
     (if \<not> truthy (btc_market_cap s) then NaN
      else fdiv (gold_market_cap s) (btc_market_cap s))"

definition TOTAL_ABOVE_GROUND_GOLD_TONNES :: int where
  "TOTAL_ABOVE_GROUND_GOLD_TONNES = 205000"

definition TONNES_TO_TROY_OZ :: pyfloat where
  \<comment> \<open>the float literal \<open>32_150.7466\<close>\<close>
  "TONNES_TO_TROY_OZ = fl (321507466 / 10000)"

definition int_times_float :: "int \<Rightarrow> pyfloat \<Rightarrow> pyfloat" where
  \<comment> \<open>\<open>n * x\<close> for an \<open>int\<close> that a float holds: the integer is converted first\<close>
  "int_times_float n x = fmul (fl (of_int n)) x"

definition btc_url :: string where
  "btc_url = ''https://api.coingecko.com/api/v3/simple/price''
             @ ''?ids=bitcoin&vs_currencies=usd&include_market_cap=true''"

definition gold_url :: string where
  "gold_url = ''https://data-asg.goldprice.org/dbXRates/USD''"

definition float_field :: "json \<Rightarrow> string \<Rightarrow> py_error + pyfloat" where
  \<comment> \<open>\<open>float(obj[key])\<close>\<close>
  "float_field obj k =
     (case subscript_key obj k of Inl e \<Rightarrow> Inl e | Inr v \<Rightarrow> py_float_json v)"

definition fetch_market_caps :: "(string \<Rightarrow> http_response) \<Rightarrow> py_error + MarketCapSnapshot" where
  "fetch_market_caps server =
     (case request_json server btc_url of
        Inl e \<Rightarrow> Inl e
      | Inr btc_payload \<Rightarrow>
     (case dict_get btc_payload ''bitcoin'' of
        Inl e \<Rightarrow> Inl e
      | Inr btc_data \<Rightarrow>
     if \<not> json_truthy btc_data
     then Inl (DataFetchError ''CoinGecko response missing bitcoin data'')
     else
     (case float_field btc_data ''usd'' of
        Inl e \<Rightarrow> Inl e
      | Inr price \<Rightarrow>
     (case float_field btc_data ''usd_market_cap'' of
        Inl e \<Rightarrow> Inl e
      | Inr btc_cap \<Rightarrow>
     (case request_json server gold_url of
        Inl e \<Rightarrow> Inl e
      | Inr gold_payload \<Rightarrow>
     (case dict_get gold_payload ''items'' of
        Inl e \<Rightarrow> Inl e
      | Inr items \<Rightarrow>
     if \<not> json_truthy items
     then Inl (DataFetchError ''Gold price feed missing items list'')
     else
     (case subscript_index items 0 of
        Inl e \<Rightarrow> Inl e
      | Inr item \<Rightarrow>
     (case float_field item ''xauPrice'' of
        Inl e \<Rightarrow> Inl e
      | Inr gold \<Rightarrow>
          (let total_oz = int_times_float TOTAL_ABOVE_GROUND_GOLD_TONNES TONNES_TO_TROY_OZ;
               gold_cap = fmul gold total_oz
           in Inr \<lparr>btc_price = price, btc_market_cap = btc_cap,
                    gold_price = gold, gold_market_cap = gold_cap\<rparr>)))))))))"


subsection \<open>The valuation ratio (MVRV)\<close>

text \<open>
  The strings that \<open>datetime.fromisoformat\<close> accepts depend on the version of Python
  (since 3.11 it reads most of ISO 8601), so the parser is a parameter \<open>fromisoformat\<close> of
  the model: it gives the date of the timestamp, and \<open>None\<close> is its \<open>ValueError\<close>.
  \<open>fromisoformat_v37\<close> is the instance for the strings that the documentation of Python
  3.7 to 3.10 admits, \<open>YYYY-MM-DD[*HH[:MM[:SS[.fff[fff]]]][+HH:MM[:SS[.ffffff]]]]\<close>.
\<close>

definition digits_of_len :: "nat \<Rightarrow> string \<Rightarrow> int option" where
  "digits_of_len n s = (if length s = n \<and> list_all is_digit s then Some (int_of_digits s) else None)"

definition parse_iso_date :: "string \<Rightarrow> pydate option" where
  "parse_iso_date s =
     (case split_on (CHR ''-'') s of
        [y, m, d] \<Rightarrow>
          (case (digits_of_len 4 y, digits_of_len 2 m, digits_of_len 2 d) of
             (Some yy, Some mm, Some dd) \<Rightarrow> if valid_date (yy, mm, dd) then Some (yy, mm, dd) else None
           | _ \<Rightarrow> None)
      | _ \<Rightarrow> None)"

definition parse_seconds :: "string \<Rightarrow> int option" where
  \<comment> \<open>\<open>SS\<close>, \<open>SS.fff\<close> or \<open>SS.ffffff\<close>: the whole seconds\<close>
  "parse_seconds s =
     (case split_on (CHR ''.'') s of
        [ss] \<Rightarrow> digits_of_len 2 ss
      | [ss, ff] \<Rightarrow>
          if digits_of_len 3 ff \<noteq> None then digits_of_len 2 ss
          else if digits_of_len 6 ff \<noteq> None then digits_of_len 2 ss else None
      | _ \<Rightarrow> None)"

definition parse_hms :: "string \<Rightarrow> (int \<times> int \<times> int) option" where
  \<comment> \<open>\<open>HH[:MM[:SS[.fff[fff]]]]\<close>\<close>
  "parse_hms s =
     (case split_on (CHR '':'') s of
        [h] \<Rightarrow> (case digits_of_len 2 h of Some hh \<Rightarrow> Some (hh, 0, 0) | None \<Rightarrow> None)
      | [h, m] \<Rightarrow>
          (case (digits_of_len 2 h, digits_of_len 2 m) of
             (Some hh, Some mm) \<Rightarrow> Some (hh, mm, 0)
           | _ \<Rightarrow> None)
      | [h, m, sec] \<Rightarrow>
          (case (digits_of_len 2 h, digits_of_len 2 m, parse_seconds sec) of
             (Some hh, Some mm, Some ss) \<Rightarrow> Some (hh, mm, ss)
           | _ \<Rightarrow> None)
      | _ \<Rightarrow> None)"

definition valid_time :: "string \<Rightarrow> bool" where
  "valid_time s =
     (case parse_hms s of
        Some (hh, mm, ss) \<Rightarrow> hh < 24 \<and> mm < 60 \<and> ss < 60
      | None \<Rightarrow> False)"

definition valid_offset :: "string \<Rightarrow> bool" where
  \<comment> \<open>\<open>HH:MM[:SS[.ffffff]]\<close> after the sign, less than a day\<close>
  "valid_offset s =
     (case parse_hms s of
        Some (hh, mm, ss) \<Rightarrow> 2 \<le> length (split_on (CHR '':'') s) \<and> hh * 3600 + mm * 60 + ss < 86400
      | None \<Rightarrow> False)"

definition is_sign :: "char \<Rightarrow> bool" where
  "is_sign c = (c = CHR ''+'' \<or> c = CHR ''-'')"

definition fromisoformat_v37 :: "string \<Rightarrow> pydate option" where
  "fromisoformat_v37 s =
     (case parse_iso_date (take 10 s) of
        None \<Rightarrow> None
      | Some d \<Rightarrow>
          if length s = 10 then Some d
          else (let t = drop 11 s;
                    clock = takeWhile (\<lambda>c. \<not> is_sign c) t;
                    tz = dropWhile (\<lambda>c. \<not> is_sign c) t
                in if valid_time clock \<and> (tz = [] \<or> valid_offset (tl tz)) then Some d else None))"

record mvrv_row = dated +
  cap_market_usd :: pyfloat
  cap_realized_usd :: pyfloat
  mvrv_ratio :: pyfloat

definition timestamp_date :: "(string \<Rightarrow> pydate option) \<Rightarrow> json \<Rightarrow> py_error + pydate" where
  \<comment> \<open>\<open>dt.datetime.fromisoformat(row["time"].replace("Z", "+00:00"))\<close> and its date\<close>
  "timestamp_date fromisoformat row =
     (case subscript_key row ''time'' of
        Inl e \<Rightarrow> Inl e
      | Inr t \<Rightarrow>
          (case t of
             JStr s \<Rightarrow>
               (case fromisoformat (replace ''Z'' ''+00:00'' s) of
                  None \<Rightarrow> Inl ValueError
                | Some d \<Rightarrow> Inr d)
           | _ \<Rightarrow> Inl AttributeError))"

definition mvrv_record :: "(string \<Rightarrow> pydate option) \<Rightarrow> json \<Rightarrow> py_error + mvrv_row" where
  \<comment> \<open>the body of the loop over the rows: only \<open>KeyError\<close> and \<open>ValueError\<close> of the
      timestamp are turned into a \<open>DataFetchError\<close>\<close>
  "mvrv_record fromisoformat row =
     (case timestamp_date fromisoformat row of
        Inl e \<Rightarrow>
          if e = KeyError \<or> e = ValueError
          then Inl (DataFetchError ''Invalid timestamp in CoinMetrics payload'')
          else Inl e
      | Inr d \<Rightarrow>
          (case float_field row ''CapMrktCurUSD'' of
             Inl e \<Rightarrow> Inl e
           | Inr cap \<Rightarrow>
               (case float_field row ''CapRealUSD'' of
                  Inl e \<Rightarrow> Inl e
                | Inr realized \<Rightarrow>
                    (case float_field row ''CapMVRVCur'' of
                       Inl e \<Rightarrow> Inl e
                     | Inr ratio \<Rightarrow>
                         Inr \<lparr>date = d, cap_market_usd = cap, cap_realized_usd = realized,
                              mvrv_ratio = ratio\<rparr>))))"

fun mvrv_records :: "(string \<Rightarrow> pydate option) \<Rightarrow> json list \<Rightarrow> py_error + mvrv_row list" where
  "mvrv_records fromisoformat [] = Inr []"
| "mvrv_records fromisoformat (row # rest) =
     (case mvrv_record fromisoformat row of
        Inl e \<Rightarrow> Inl e
      | Inr r \<Rightarrow>
          (case mvrv_records fromisoformat rest of
             Inl e \<Rightarrow> Inl e
           | Inr rs \<Rightarrow> Inr (r # rs)))"

definition token_text :: "json \<Rightarrow> string option" where
  \<comment> \<open>the token as the f-string prints it; a token that is a float, a list or a dict is
      outside the model\<close>
  "token_text t =
     (case t of
        JStr s \<Rightarrow> Some s
      | JInt n \<Rightarrow> Some (str_int n)
      | JBool b \<Rightarrow> Some (if b then ''True'' else ''False'')
      | _ \<Rightarrow> None)"

fun paginate_coinmetrics ::
  "(string \<Rightarrow> pydate option) \<Rightarrow> nat \<Rightarrow> (string \<Rightarrow> http_response) \<Rightarrow> string \<Rightarrow> string
     \<Rightarrow> (py_error + mvrv_row list) option" where
  \<comment> \<open>the generator together with the loop that consumes it: the rows of a page are
      converted before the next page is requested.  The first argument bounds the number
      of requests; \<open>None\<close> is a run that needs more, or a token outside the model\<close>
  "paginate_coinmetrics fromisoformat 0 server base_url url = None"
| "paginate_coinmetrics fromisoformat (Suc fuel) server base_url url =
     (case request_json server url of
        Inl e \<Rightarrow> Some (Inl e)
      | Inr payload \<Rightarrow>
     (case dict_get_default payload ''data'' (JArr []) of
        Inl e \<Rightarrow> Some (Inl e)
      | Inr data \<Rightarrow>
     (case iterate data of
        Inl e \<Rightarrow> Some (Inl e)
      | Inr rows \<Rightarrow>
     (case mvrv_records fromisoformat rows of
        Inl e \<Rightarrow> Some (Inl e)
      | Inr page \<Rightarrow>
     (case dict_get payload ''next_page_token'' of
        Inl e \<Rightarrow> Some (Inl e)
      | Inr next_token \<Rightarrow>
          if \<not> json_truthy next_token then Some (Inr page)
          else (case token_text next_token of
                  None \<Rightarrow> None
                | Some tok \<Rightarrow>
                    (case paginate_coinmetrics fromisoformat fuel server base_url
                            (base_url @ ''&next_page_token='' @ tok) of
                       None \<Rightarrow> None
                     | Some (Inl e) \<Rightarrow> Some (Inl e)
                     | Some (Inr later) \<Rightarrow> Some (Inr (page @ later)))))))))"

definition pad :: "nat \<Rightarrow> string \<Rightarrow> string" where
  "pad n s = replicate (n - length s) (CHR ''0'') @ s"

definition isoformat :: "pydate \<Rightarrow> string" where
  \<comment> \<open>\<open>date.isoformat()\<close>\<close>
  "isoformat d =
     (case d of (y, m, dd) \<Rightarrow>
        pad 4 (str_int y) @ ''-'' @ pad 2 (str_int m) @ ''-'' @ pad 2 (str_int dd))"

definition mvrv_base_url :: "pydate \<Rightarrow> pydate \<Rightarrow> string" where
  "mvrv_base_url start today =
     ''https://community-api.coinmetrics.io/v4/timeseries/asset-metrics''
     @ ''?assets=btc&metrics=CapMrktCurUSD,CapRealUSD,CapMVRVCur''
     @ ''&frequency=1d&start_time='' @ isoformat start @ ''&end_time='' @ isoformat today"

definition fetch_mvrv_timeseries ::
  "(string \<Rightarrow> pydate option) \<Rightarrow> nat \<Rightarrow> (string \<Rightarrow> http_response) \<Rightarrow> pydate \<Rightarrow> pydate
     \<Rightarrow> (py_error + mvrv_row list) option" where
  \<comment> \<open>\<open>today\<close> is what \<open>dt.date.today()\<close> returns\<close>
  "fetch_mvrv_timeseries fromisoformat fuel server start today =
     (case paginate_coinmetrics fromisoformat fuel server (mvrv_base_url start today)
             (mvrv_base_url start today) of
        None \<Rightarrow> None
      | Some (Inl e) \<Rightarrow> Some (Inl e)
      | Some (Inr rows) \<Rightarrow>
          if rows = [] then Some (Inl (DataFetchError ''CoinMetrics returned no data for MVRV''))
          else Some (Inr (sort_key date rows)))"


section \<open>Notions used in the statements\<close>

definition matches_date_line :: "string \<Rightarrow> bool" where
  \<comment> \<open>a line that the loop of the ETF-flow parser takes a row from\<close>
  "matches_date_line line = (startswith (strip line) ''|'' \<and> match_date_pattern line \<noteq> None)"

definition line_date :: "string \<Rightarrow> pydate option" where
  \<comment> \<open>the date that the leading date of a line parses to\<close>
  "line_date line =
     (case match_date_pattern line of None \<Rightarrow> None | Some ds \<Rightarrow> to_datetime_dmy ds)"

definition ranked :: "treasury_row list \<Rightarrow> bool" where
  \<comment> \<open>the rows with a number come first, in descending order (equal holdings may follow
      each other), and the rows whose holding is NaN come after them\<close>
  "ranked tbl =
     (filter (\<lambda>r. holding r \<noteq> NaN) tbl @ filter (\<lambda>r. holding r = NaN) tbl = tbl
      \<and> sorted (rev (map (\<lambda>r. fkey (holding r)) (filter (\<lambda>r. holding r \<noteq> NaN) tbl))))"

definition strictly_descending :: "pyfloat list \<Rightarrow> bool" where
  "strictly_descending xs = sorted_wrt (\<lambda>a b. fkey b < fkey a) xs"

definition top_of_ranking :: "treasury_row list \<Rightarrow> int \<Rightarrow> treasury_row list \<Rightarrow> bool" where
  \<comment> \<open>\<open>tbl\<close> is what \<open>head\<close> takes from some ranking of all the rows \<open>df\<close>\<close>
  "top_of_ranking df top_n tbl = (\<exists>full. mset full = mset df \<and> ranked full \<and> tbl = head top_n full)"

definition numeric_keys :: "treasury_row list \<Rightarrow> (int \<times> rat) list" where
  \<comment> \<open>the holdings that are numbers, as the sort compares them\<close>
  "numeric_keys df = map (\<lambda>r. fkey (holding r)) (filter (\<lambda>r. holding r \<noteq> NaN) df)"

definition flow_dates :: "string \<Rightarrow> pydate list" where
  \<comment> \<open>the dates of an ETF-flow text: of each line that the loop takes a row from, the date
      when it parses\<close>
  "flow_dates page = List.map_filter line_date (filter matches_date_line (splitlines page))"

definition ahr_block :: "string \<Rightarrow> string \<Rightarrow> string option" where
  \<comment> \<open>the text between a key after the anchor and the next closing bracket\<close>
  "ahr_block html key =
     (case find html anchor 0 of
        None \<Rightarrow> None
      | Some anchor_idx \<Rightarrow>
          (case find html key anchor_idx of
             None \<Rightarrow> None
           | Some start \<Rightarrow>
               (case find html '']'' start of
                  None \<Rightarrow> None
                | Some stop \<Rightarrow> Some (slice html (start + length key) stop))))"

definition ahr_dates :: "string \<Rightarrow> pydate list" where
  \<comment> \<open>the dates of an AHR999 document: of each pair of a label and a value, the date when
      the label parses and the value is not NaN\<close>
  "ahr_dates html =
     (case (ahr_block html data_key, ahr_block html labels_key) of
        (Some values_block, Some labels_block) \<Rightarrow>
          (case floats_of (raw_values_of values_block) of
             Inl e \<Rightarrow> []
           | Inr vals \<Rightarrow>
               map date (List.map_filter ahr_of
                          (zip (map to_datetime_ymd (raw_labels_of labels_block)) vals)))
      | _ \<Rightarrow> [])"

fun yielded_rows ::
  "nat \<Rightarrow> (string \<Rightarrow> http_response) \<Rightarrow> string \<Rightarrow> string \<Rightarrow> json list option" where
  \<comment> \<open>the rows that \<open>_paginate_coinmetrics\<close> yields when it runs to its end within the
      given number of requests\<close>
  "yielded_rows 0 server base_url url = None"
| "yielded_rows (Suc fuel) server base_url url =
     (case request_json server url of
        Inl e \<Rightarrow> None
      | Inr payload \<Rightarrow>
     (case dict_get_default payload ''data'' (JArr []) of
        Inl e \<Rightarrow> None
      | Inr data \<Rightarrow>
     (case iterate data of
        Inl e \<Rightarrow> None
      | Inr rows \<Rightarrow>
     (case dict_get payload ''next_page_token'' of
        Inl e \<Rightarrow> None
      | Inr next_token \<Rightarrow>
          if \<not> json_truthy next_token then Some rows
          else (case token_text next_token of
                  None \<Rightarrow> None
                | Some tok \<Rightarrow>
                    (case yielded_rows fuel server base_url
                            (base_url @ ''&next_page_token='' @ tok) of
                       None \<Rightarrow> None
                     | Some later \<Rightarrow> Some (rows @ later)))))))"

definition row_date :: "(string \<Rightarrow> pydate option) \<Rightarrow> json \<Rightarrow> pydate option" where
  \<comment> \<open>the date of the timestamp of a row, when it has one\<close>
  "row_date fromisoformat row =
     (case timestamp_date fromisoformat row of Inl e \<Rightarrow> None | Inr d \<Rightarrow> Some d)"

definition mvrv_dates ::
  "(string \<Rightarrow> pydate option) \<Rightarrow> nat \<Rightarrow> (string \<Rightarrow> http_response) \<Rightarrow> pydate \<Rightarrow> pydate
     \<Rightarrow> pydate list" where
  \<comment> \<open>the dates of all rows of all pages\<close>
  "mvrv_dates fromisoformat fuel server start today =
     (case yielded_rows fuel server (mvrv_base_url start today) (mvrv_base_url start today) of
        None \<Rightarrow> []
      | Some raw \<Rightarrow> List.map_filter (row_date fromisoformat) raw)"

section \<open>Example inputs\<close>

definition ok_page :: "string \<Rightarrow> http_response" where
  \<comment> \<open>a response with status 200 and the given text\<close>
  "ok_page body = \<lparr>status_code = 200, body_text = body, json_body = None\<rparr>"

definition ok_json :: "json \<Rightarrow> http_response" where
  \<comment> \<open>a response with status 200 and the given decoded payload\<close>
  "ok_json payload = \<lparr>status_code = 200, body_text = [], json_body = Some payload\<rparr>"

definition lines_text :: "string list \<Rightarrow> string" where
  \<comment> \<open>the lines joined by line feeds\<close>
  "lines_text ls = concat (map (\<lambda>l. l @ [CHR 0x0A]) ls)"

definition metrics_row :: "string \<Rightarrow> string \<Rightarrow> json" where
  \<comment> \<open>a CoinMetrics row with the given time and, for all three metrics, the given text\<close>
  "metrics_row t v =
     JObj [(''time'', JStr t), (''CapMrktCurUSD'', JStr v), (''CapRealUSD'', JStr v),
           (''CapMVRVCur'', JStr v)]"

definition example_flows_text :: string where
  "example_flows_text =
     lines_text [''| Date | IBIT | Total |'', ''| 12 Jan 2024 | 10.5 | (1,234.5) |'',
                 ''| 11 Jan 2024 | 7 | 7 |'', ''| 31 Feb 2024 | 1 | 1 |'']"

definition example_flows :: "flow_row list" where
  "example_flows =
     [\<lparr>date = (2024, 1, 11), date_str = ''11 Jan 2024'', total_flow = Fin 7\<rparr>,
      \<lparr>date = (2024, 1, 12), date_str = ''12 Jan 2024'', total_flow = Fin (- (2469 / 2))\<rparr>]"

definition example_ahr_page :: string where
  "example_ahr_page =
     anchor @ '',data:[1.5, 0.25,2],labels:[2024-01-03,2024-01-01, 2024-01-02]''"

definition example_ahr :: "ahr_row list" where
  "example_ahr =
     [\<lparr>date = (2024, 1, 1), ahr = Fin (1 / 4)\<rparr>, \<lparr>date = (2024, 1, 2), ahr = Fin 2\<rparr>,
      \<lparr>date = (2024, 1, 3), ahr = Fin (3 / 2)\<rparr>]"

definition example_mvrv_server :: "string \<Rightarrow> http_response" where
  \<comment> \<open>two pages of one row each, the later date on the first page\<close>
  "example_mvrv_server url =
     (if url = mvrv_base_url (2024, 1, 1) (2024, 2, 1)
      then ok_json (JObj [(''data'', JArr [metrics_row ''2024-01-02T00:00:00Z'' ''1.5'']),
                          (''next_page_token'', JStr ''p2'')])
      else ok_json (JObj [(''data'', JArr [metrics_row ''2024-01-01T00:00:00Z'' ''2''])]))"

definition example_mvrv :: "mvrv_row list" where
  "example_mvrv =
     [\<lparr>date = (2024, 1, 1), cap_market_usd = Fin 2, cap_realized_usd = Fin 2,
        mvrv_ratio = Fin 2\<rparr>,
      \<lparr>date = (2024, 1, 2), cap_market_usd = Fin (3 / 2), cap_realized_usd = Fin (3 / 2),
        mvrv_ratio = Fin (3 / 2)\<rparr>]"



definition example_btc_server :: "string \<Rightarrow> http_response" where
  "example_btc_server url =
     ok_page (lines_text [''| Ticker | Name | T | C | U | P | D | M | BTC |'',
                          ''| C | c | t | c | u | 1 | 1 | 1 | 50 |'',
                          ''| N | n | t | c | u | 1 | 1 | 1 | - |'',
                          ''| A | a | t | c | u | 1 | 1 | 1 | 1.2m |''])"

definition example_btc_frame :: "treasury_row list" where
  \<comment> \<open>the three rows of the page, decoded, in the order of the page\<close>
  "example_btc_frame =
     [\<lparr>cells = [''C'', ''c'', ''t'', ''c'', ''u'', ''1'', ''1'', ''1'', ''50''],
        holding = Fin 50\<rparr>,
      \<lparr>cells = [''N'', ''n'', ''t'', ''c'', ''u'', ''1'', ''1'', ''1'', ''-''],
        holding = NaN\<rparr>,
      \<lparr>cells = [''A'', ''a'', ''t'', ''c'', ''u'', ''1'', ''1'', ''1'', ''1.2m''],
        holding = Fin 1200000\<rparr>]"

definition example_btc :: "treasury_row list" where
  \<comment> \<open>the two highest of the three rows\<close>
  "example_btc =
     [\<lparr>cells = [''A'', ''a'', ''t'', ''c'', ''u'', ''1'', ''1'', ''1'', ''1.2m''],
        holding = Fin 1200000\<rparr>,
      \<lparr>cells = [''C'', ''c'', ''t'', ''c'', ''u'', ''1'', ''1'', ''1'', ''50''],
        holding = Fin 50\<rparr>]"

definition example_eth_server :: "string \<Rightarrow> http_response" where
  "example_eth_server url =
     ok_page (lines_text [''| Company Name | Ticker | F | ETH | V | L | C | D |'',
                          ''| N | n | f | - | v | l | c | d |'',
                          ''| A | a | f | 7 ETH | v | l | c | d |''])"

definition example_eth :: "treasury_row list" where
  "example_eth =
     [\<lparr>cells = [''A'', ''a'', ''f'', ''7 ETH'', ''v'', ''l'', ''c'', ''d''], holding = Fin 7\<rparr>,
      \<lparr>cells = [''N'', ''n'', ''f'', ''-'', ''v'', ''l'', ''c'', ''d''], holding = NaN\<rparr>]"

definition example_sol_server :: "string \<Rightarrow> http_response" where
  \<comment> \<open>rows that start with a rank\<close>
  "example_sol_server url =
     ok_page (lines_text [''| Company | Type | Ch | SOL | V | S | L | X |'',
                          ''| 1 | B | t | ch | 3 | v | s | l |'',
                          ''| 2 | A | t | ch | 9 | v | s | l |''])"

definition example_sol :: "treasury_row list" where
  "example_sol = [\<lparr>cells = [''A'', ''t'', ''ch'', ''9'', ''v'', ''s'', ''l''], holding = Fin 9\<rparr>]"

definition ties_server :: "string \<Rightarrow> http_response" where
  \<comment> \<open>two companies with the same holding\<close>
  "ties_server url =
     ok_page (lines_text [''| A | a | t | c | u | 1 | 1 | 1 | 100 |'',
                          ''| B | b | t | c | u | 1 | 1 | 1 | 100 |'',
                          ''| C | c | t | c | u | 1 | 1 | 1 | 50 |''])"

definition quoted :: "string \<Rightarrow> string" where
  \<comment> \<open>the string between double quotes\<close>
  "quoted s = [CHR 0x22] @ s @ [CHR 0x22]"

definition example_mismatch_page :: string where
  \<comment> \<open>three values and two labels\<close>
  "example_mismatch_page =
     ''series:[{'' @ anchor @ '',data:[1.5,0.25,2]}],labels:[''
     @ quoted ''2024-01-03'' @ '','' @ quoted ''2024-01-01'' @ '']''"

definition example_caps_server :: "string \<Rightarrow> http_response" where
  \<comment> \<open>BTC price 60000 with market cap 1.2e12, gold price 2000\<close>
  "example_caps_server url =
     (if url = btc_url
      then ok_json (JObj [(''bitcoin'', JObj [(''usd'', JInt 60000),
                                             (''usd_market_cap'', JFloat (Fin 1200000000000))])])
      else ok_json (JObj [(''items'', JArr [JObj [(''xauPrice'', JInt 2000)]])]))"

definition example_snapshot :: MarketCapSnapshot where
  "example_snapshot =
     \<lparr>btc_price = Fin 60000, btc_market_cap = Fin 1200000000000, gold_price = Fin 2000,
      gold_market_cap = Fin 13181806106000\<rparr>"

definition page_of_rows :: "json list \<Rightarrow> string \<Rightarrow> http_response" where
  \<comment> \<open>a CoinMetrics server whose only page has the given rows\<close>
  "page_of_rows rows url = ok_json (JObj [(''data'', JArr rows)])"

definition row_without_time :: json where
  "row_without_time =
     JObj [(''CapMrktCurUSD'', JStr ''1''), (''CapRealUSD'', JStr ''1''), (''CapMVRVCur'', JStr ''1'')]"

definition row_without_market_cap :: json where
  "row_without_market_cap =
     JObj [(''time'', JStr ''2024-01-01T00:00:00Z''), (''CapRealUSD'', JStr ''1''),
           (''CapMVRVCur'', JStr ''1'')]"

definition row_with_null_time :: json where
  "row_with_null_time =
     JObj [(''time'', JNull), (''CapMrktCurUSD'', JStr ''1''), (''CapRealUSD'', JStr ''1''),
           (''CapMVRVCur'', JStr ''1'')]"

definition row_with_numeric_time :: json where
  \<comment> \<open>the time as seconds since 1970\<close>
  "row_with_numeric_time =
     JObj [(''time'', JInt 1704067200), (''CapMrktCurUSD'', JStr ''1''), (''CapRealUSD'', JStr ''1''),
           (''CapMVRVCur'', JStr ''1'')]"

definition invalid_timestamp :: py_error where
  "invalid_timestamp = DataFetchError ''Invalid timestamp in CoinMetrics payload''"

definition count_mismatch :: py_error where
  "count_mismatch = DataFetchError ''Mismatched label/value counts in AHR data''"

definition good_row :: json where
  "good_row = metrics_row ''2024-01-02T00:00:00Z'' ''1.5''"

definition good_record :: mvrv_row where
  "good_record =
     \<lparr>date = (2024, 1, 2), cap_market_usd = Fin (3 / 2), cap_realized_usd = Fin (3 / 2),
      mvrv_ratio = Fin (3 / 2)\<rparr>"

definition malformed_fields :: "(string \<times> json) list" where
  "malformed_fields =
     [(''time'', JStr ''yesterday''), (''CapMrktCurUSD'', JStr ''1''), (''CapRealUSD'', JStr ''1''),
      (''CapMVRVCur'', JStr ''1'')]"

definition time_missing_fields :: "(string \<times> json) list" where
  "time_missing_fields =
     [(''CapMrktCurUSD'', JStr ''1''), (''CapRealUSD'', JStr ''1''), (''CapMVRVCur'', JStr ''1'')]"


section \<open>Properties of the string helpers\<close>

lemma rstrip_by_snoc: "rstrip_by P (xs @ [c]) = (if P c then rstrip_by P xs else xs @ [c])"
  by (simp add: rstrip_by_def)

lemma rstrip_by_keep: "s \<noteq> [] \<Longrightarrow> \<not> P (last s) \<Longrightarrow> rstrip_by P s = s"
  using rstrip_by_snoc [of P "butlast s" "last s"] by simp

lemma length_rstrip_by: "length (rstrip_by P s) \<le> length s"
  by (simp add: rstrip_by_def length_dropWhile_le [of P "rev s", simplified])

lemma strip_by_keep: "s \<noteq> [] \<Longrightarrow> \<not> P (hd s) \<Longrightarrow> \<not> P (last s) \<Longrightarrow> strip_by P s = s"
  by (cases s) (simp_all add: strip_by_def rstrip_by_keep)

lemma length_dropWhile_less: "s \<noteq> [] \<Longrightarrow> P (hd s) \<Longrightarrow> length (dropWhile P s) < length s"
  by (cases s) (simp_all add: le_imp_less_Suc length_dropWhile_le)

lemma strip_by_fixed:
  assumes "strip_by P s = s" "s \<noteq> []"
  shows "\<not> P (hd s) \<and> \<not> P (last s)"
proof -
  have hd: "\<not> P (hd s)"
  proof
    assume "P (hd s)"
    then have "length (dropWhile P s) < length s"
      using assms(2) by (rule length_dropWhile_less [rotated])
    moreover have "length (strip_by P s) \<le> length (dropWhile P s)"
      by (simp add: strip_by_def length_rstrip_by)
    ultimately show False using assms(1) by simp
  qed
  then have dw: "dropWhile P s = s" using assms(2) by (cases s) simp_all
  have "\<not> P (last s)"
  proof
    assume l: "P (last s)"
    have "rstrip_by P s = rstrip_by P (butlast s)"
      using rstrip_by_snoc [of P "butlast s" "last s"] l assms(2) by simp
    moreover have "rstrip_by P s = s" using assms(1) dw by (simp add: strip_by_def)
    ultimately have "length s = length (rstrip_by P (butlast s))" by simp
    also have "\<dots> \<le> length (butlast s)" by (rule length_rstrip_by)
    also have "\<dots> < length s" using assms(2) by (simp add: length_greater_0_conv)
    finally show False by simp
  qed
  with hd show ?thesis by simp
qed

lemma endswith_single: "endswith s [c] = (s \<noteq> [] \<and> last s = c)"
  by (cases s rule: rev_cases) (auto simp: endswith_def)

lemma startswith_single: "startswith s [c] = (s \<noteq> [] \<and> hd s = c)"
  by (cases s) (auto simp: startswith_def)

lemma strip_open_paren:
  assumes "strip s = s" "s \<noteq> []"
  shows "strip (''('' @ s) = ''('' @ s"
proof -
  have "\<not> is_space (last s)" using strip_by_fixed [of is_space s] assms by (simp add: strip_def)
  moreover have "\<not> is_space (CHR ''('')" by (simp add: is_space_def)
  ultimately show ?thesis using assms(2) by (simp add: strip_def strip_by_keep)
qed

lemma strip_close_paren:
  assumes "strip s = s" "s \<noteq> []"
  shows "strip (s @ '')'') = s @ '')''"
proof -
  have "\<not> is_space (hd s)" using strip_by_fixed [of is_space s] assms by (simp add: strip_def)
  moreover have "\<not> is_space (CHR '')'')" by (simp add: is_space_def)
  ultimately show ?thesis using assms(2) by (simp add: strip_def strip_by_keep)
qed

lemma strip_by_Cons_drop: "P c \<Longrightarrow> strip_by P (c # s) = strip_by P s"
  by (simp add: strip_by_def)

lemma strip_by_snoc_drop:
  assumes "P c"
  shows "strip_by P (s @ [c]) = strip_by P s"
proof (cases "\<forall>x\<in>set s. P x")
  case True
  then have "dropWhile P s = []" by simp
  moreover have "dropWhile P (s @ [c]) = []" using True assms by simp
  ultimately show ?thesis by (simp only: strip_by_def)
next
  case False
  then have "dropWhile P (s @ [c]) = dropWhile P s @ [c]"
    by (auto simp: dropWhile_append)
  then show ?thesis using assms by (simp add: strip_by_def rstrip_by_snoc)
qed

lemma strip_chars_open: "strip_chars ''()'' (''('' @ s) = strip_chars ''()'' s"
  by (simp add: strip_chars_def strip_by_Cons_drop)

lemma strip_chars_close: "strip_chars ''()'' (s @ '')'') = strip_chars ''()'' s"
  by (simp add: strip_chars_def strip_by_snoc_drop)

lemma clean_open: "clean (''('' @ s) = clean s"
  by (simp only: clean_def strip_chars_open)

lemma clean_close: "clean (s @ '')'') = clean s"
  by (simp only: clean_def strip_chars_close)

lemma to_number_dash: "to_number ''-'' = Inr NaN" "to_number ''(-'' = Inr NaN" "to_number ''-)'' = Inr NaN"
  by code_simp+

lemma to_number_open:
  assumes "strip s = s" "s \<noteq> []" "\<not> endswith s '')''"
  shows "to_number (''('' @ s) = to_number s"
proof (cases "s = ''-''")
  case True
  then show ?thesis by (simp add: to_number_dash)
next
  case False
  have n1: "(startswith (''('' @ s) ''('' \<and> endswith (''('' @ s) '')'') = False"
    using assms(2,3) by (simp add: endswith_single)
  have n2: "(startswith s ''('' \<and> endswith s '')'') = False"
    using assms(3) by simp
  have c1: "(''('' @ s = [] \<or> ''('' @ s = ''-'') = False" by simp
  have c2: "(s = [] \<or> s = ''-'') = False" using assms(2) False by simp
  show ?thesis
    unfolding to_number_def Let_def strip_open_paren [OF assms(1,2)] assms(1) clean_open n1 n2 c1 c2
    by (rule refl)
qed

lemma to_number_close:
  assumes "strip s = s" "s \<noteq> []" "\<not> startswith s ''(''"
  shows "to_number (s @ '')'') = to_number s"
proof (cases "s = ''-''")
  case True
  then show ?thesis by (simp add: to_number_dash)
next
  case False
  have n1: "(startswith (s @ '')'') ''('' \<and> endswith (s @ '')'') '')'') = False"
    using assms(2,3) by (cases s) (simp_all add: startswith_single)
  have n2: "(startswith s ''('' \<and> endswith s '')'') = False"
    using assms(3) by simp
  have c1: "(s @ '')'' = [] \<or> s @ '')'' = ''-'') = False" by (cases s) simp_all
  have c2: "(s = [] \<or> s = ''-'') = False" using assms(2) False by simp
  show ?thesis
    unfolding to_number_def Let_def strip_close_paren [OF assms(1,2)] assms(1) clean_close n1 n2 c1 c2
    by (rule refl)
qed

lemma to_number_parens:
  assumes "strip s = s" "s \<noteq> []" "\<not> (startswith s ''('' \<and> endswith s '')'')"
  shows "to_number (''('' @ s @ '')'') = map_sum id fneg (to_number s)"
proof (cases "s = ''-''")
  case True
  have "to_number ''(-)'' = Inr NaN" by code_simp
  with True show ?thesis by (simp add: to_number_dash)
next
  case False
  have s1: "strip (s @ '')'') = s @ '')''" by (rule strip_close_paren [OF assms(1,2)])
  have s2: "strip (''('' @ s @ '')'') = ''('' @ s @ '')''"
    by (rule strip_open_paren [OF s1]) simp
  have n1: "(startswith (''('' @ s @ '')'') ''('' \<and> endswith (''('' @ s @ '')'') '')'') = True"
    by (simp add: startswith_single endswith_single)
  have n2: "(startswith s ''('' \<and> endswith s '')'') = False"
    using assms(3) by simp
  have c1: "(''('' @ s @ '')'' = [] \<or> ''('' @ s @ '')'' = ''-'') = False" by simp
  have c2: "(s = [] \<or> s = ''-'') = False" using assms(2) False by simp
  have cl: "clean (''('' @ s @ '')'') = clean s" by (simp only: clean_open clean_close)
  show ?thesis
    unfolding to_number_def Let_def s2 assms(1) cl n1 n2 c1 c2
    by (simp split: option.splits)
qed

lemma to_number_error: "to_number s = Inl e \<Longrightarrow> e = IndexError \<and> clean (strip s) = []"
  by (auto simp: to_number_def Let_def split: if_splits option.splits)

lemma to_number_total_if: "clean (strip s) \<noteq> [] \<Longrightarrow> \<exists>x. to_number s = Inr x"
  by (auto simp: to_number_def Let_def split: if_splits option.splits)

section \<open>The number normaliser\<close>

text \<open>
  C1.  The claim: \<open>_to_number\<close> never raises, also on inputs that reduce to the empty
  string once the currency symbol, sign, separators and unit tokens are stripped.  The
  code reads \<open>cleaned[-1]\<close> before it looks at whether \<open>cleaned\<close> is empty: on \<open>$\<close>,
  \<open>()\<close> and \<open>+\<close> it raises \<open>IndexError\<close>.  The literal \<open>inf\<close> is returned as an
  infinity, which is neither finite nor the missing-value sentinel.
\<close>

theorem to_number_raises_on_empty_cleaned:
  "to_number ''$'' = Inl IndexError \<and> to_number ''()'' = Inl IndexError
   \<and> to_number ''+'' = Inl IndexError \<and> to_number ''inf'' = Inr PInf"
  by code_simp

text \<open>
  C7.  The examples of the specification: \<open>(1,234.5)\<close> gives \<open>-1234.5\<close>, \<open>1.2b\<close> gives
  \<open>1.2e9\<close>, \<open>-\<close> gives the missing-value sentinel, \<open>45.3%\<close> gives the double nearest
  to \<open>45.3\<close>, and \<open>1,000 BTC\<close> gives \<open>1000.0\<close>.
\<close>

theorem to_number_examples:
  "to_number ''(1,234.5)'' = Inr (Fin (- (12345 / 10)))
   \<and> to_number ''1.2b'' = Inr (Fin 1200000000)
   \<and> to_number ''-'' = Inr NaN
   \<and> to_number ''45.3%'' = Inr (fl (453 / 10))
   \<and> to_number ''1,000 BTC'' = Inr (Fin 1000)"
  by code_simp

text \<open>
  C10.  The negative marker needs both parentheses.  An opening parenthesis in front of
  a value that does not end with a closing one changes nothing, and neither does a
  closing parenthesis behind a value that does not start with an opening one; with both,
  the value is negated.  In particular \<open>(5\<close> and \<open>5)\<close> give \<open>5.0\<close> and \<open>(5)\<close> gives
  \<open>-5.0\<close>.
\<close>

theorem to_number_unmatched_parenthesis:
  "to_number ''(5'' = Inr (Fin 5) \<and> to_number ''5)'' = Inr (Fin 5)
   \<and> to_number ''(5)'' = Inr (Fin (- 5))
   \<and> (strip s = s \<and> s \<noteq> [] \<and> \<not> endswith s '')''
        \<longrightarrow> to_number (''('' @ s) = to_number s)
   \<and> (strip s = s \<and> s \<noteq> [] \<and> \<not> startswith s ''(''
        \<longrightarrow> to_number (s @ '')'') = to_number s)
   \<and> (strip s = s \<and> s \<noteq> [] \<and> \<not> (startswith s ''('' \<and> endswith s '')'')
        \<longrightarrow> to_number (''('' @ s @ '')'') = map_sum id fneg (to_number s))"
proof -
  have "to_number ''(5'' = Inr (Fin 5)" by code_simp
  moreover have "to_number ''5)'' = Inr (Fin 5)" by code_simp
  moreover have "to_number ''(5)'' = Inr (Fin (- 5))" by code_simp
  ultimately show ?thesis
    using to_number_open [of s] to_number_close [of s] to_number_parens [of s] by blast
qed

theorem to_number_unmatched_parenthesis_witness:
  "strip ''5'' = ''5'' \<and> ''5'' \<noteq> [] \<and> \<not> endswith ''5'' '')'' \<and> \<not> startswith ''5'' ''(''
   \<and> to_number (''('' @ ''5'') = to_number ''5''
   \<and> to_number (''5'' @ '')'') = to_number ''5''
   \<and> to_number (''('' @ ''5'' @ '')'') = map_sum id fneg (to_number ''5'')
   \<and> to_number ''5'' = Inr (Fin 5)"
proof -
  have h: "strip ''5'' = ''5'' \<and> ''5'' \<noteq> [] \<and> \<not> endswith ''5'' '')'' \<and> \<not> startswith ''5'' ''(''"
    by code_simp
  have v: "to_number ''5'' = Inr (Fin 5)" by code_simp
  show ?thesis
    using h v to_number_unmatched_parenthesis [of "''5''"] by blast
qed

section \<open>Properties of the table parsers\<close>

lemma split_on_not_Nil: "split_on d s \<noteq> []"
  by (induction s) (auto split: list.splits)

lemma table_cells_not_Nil: "table_cells line \<noteq> []"
  by (simp add: table_cells_def split_on_not_Nil)


lemma farside_rows_dates:
  "farside_rows ls = Inr rows \<Longrightarrow>
   map (\<lambda>r. to_datetime_dmy (fst r)) rows = map line_date (filter matches_date_line ls)"
proof (induction ls arbitrary: rows)
  case Nil
  then show ?case by simp
next
  case (Cons l ls)
  then show ?case
    by (auto simp: matches_date_line_def line_date_def table_cells_not_Nil Let_def
        split: if_splits option.splits sum.splits)
qed


lemma length_map_filter_flow_of:
  "length (List.map_filter flow_of rows)
   = length (filter (\<lambda>d. d \<noteq> None) (map (\<lambda>r. to_datetime_dmy (fst r)) rows))"
  by (induction rows) (auto simp: List.map_filter_simps flow_of_def split: option.splits)

lemma length_filter_line_date:
  "length (filter (\<lambda>d. d \<noteq> None) (map line_date ls))
   = length (filter (\<lambda>l. line_date l \<noteq> None) ls)"
  by (induction ls) auto

lemma parse_farside_sorted:
  "parse_farside_daily_flows txt = Inr flows \<Longrightarrow> sorted (map date flows)"
  by (auto simp: parse_farside_daily_flows_def split: sum.splits if_splits)

lemma parse_ahr_sorted: "parse_ahr html = Inr tbl \<Longrightarrow> sorted (map date tbl)"
  by (auto simp: parse_ahr_def Let_def split: option.splits sum.splits if_splits)

lemma get_text_cases:
  "get_text server url = Inr txt \<Longrightarrow> status_code (server url) = 200 \<and> txt = body_text (server url)"
  by (auto simp: get_text_def Let_def split: if_splits)


lemma fetch_mvrv_sorted:
  "fetch_mvrv_timeseries parse fuel server start today = Some (Inr rows) \<Longrightarrow> sorted (map date rows)"
  by (auto simp: fetch_mvrv_timeseries_def split: option.splits sum.splits if_splits)




lemma ranked_append:
  assumes "\<forall>r\<in>set xs. holding r \<noteq> NaN" "\<forall>r\<in>set ys. holding r = NaN"
    and "sorted (rev (map (\<lambda>r. fkey (holding r)) xs))"
  shows "ranked (xs @ ys)"
proof -
  have "filter (\<lambda>r. holding r \<noteq> NaN) (xs @ ys) = xs"
    using assms(1,2) by (simp add: filter_id_conv filter_empty_conv)
  moreover have "filter (\<lambda>r. holding r = NaN) (xs @ ys) = ys"
    using assms(1,2) by (simp add: filter_id_conv filter_empty_conv)
  ultimately show ?thesis using assms(3) by (simp add: ranked_def)
qed

lemma sorted_rev_take:
  assumes "sorted (rev xs)"
  shows "sorted (rev (take n xs))"
proof -
  have "rev (take n xs) = drop (length xs - n) (rev xs)" by (simp add: rev_take)
  then show ?thesis using assms by (simp add: sorted_wrt_drop)
qed

lemma ranked_take_sort_values: "ranked (take k (sort_values_desc df))"
proof -
  let ?A = "rev (sort_key (\<lambda>r. fkey (holding r)) (rev (filter (\<lambda>r. holding r \<noteq> NaN) df)))"
  let ?B = "filter (\<lambda>r. holding r = NaN) df"
  have t: "take k (sort_values_desc df) = take k ?A @ take (k - length ?A) ?B"
    by (simp add: sort_values_desc_def)
  have a: "\<forall>r\<in>set (take k ?A). holding r \<noteq> NaN"
    using set_take_subset [of k ?A] by auto
  have b: "\<forall>r\<in>set (take (k - length ?A) ?B). holding r = NaN"
    using set_take_subset [of "k - length ?A" ?B] by auto
  have "sorted (rev (map (\<lambda>r. fkey (holding r)) ?A))"
    by (simp add: rev_map [symmetric])
  then have "sorted (rev (take k (map (\<lambda>r. fkey (holding r)) ?A)))"
    by (rule sorted_rev_take)
  then have c: "sorted (rev (map (\<lambda>r. fkey (holding r)) (take k ?A)))"
    by (simp add: take_map)
  show ?thesis unfolding t by (rule ranked_append [OF a b c])
qed

lemma head_is_take: "\<exists>k. head n xs = take k xs"
  by (auto simp: head_def)




lemma apply_to_number_length: "apply_to_number col rows = Inr df \<Longrightarrow> length df = length rows"
  by (induction rows arbitrary: df) (auto split: sum.splits)





lemma map_insort_key: "map f (insort_key f x xs) = insort (f x) (map f xs)"
  by (induction xs) auto

lemma map_sort_key: "map f (sort_key f xs) = sort (map f xs)"
  by (induction xs) (auto simp: map_insort_key)

lemma strict_sort_iff: "sorted_wrt (<) (sort ds) \<longleftrightarrow> distinct ds"
  by (simp add: strict_sorted_iff)

lemma farside_rows_flow_dates:
  "farside_rows ls = Inr rows \<Longrightarrow>
   map date (List.map_filter flow_of rows) = List.map_filter line_date (filter matches_date_line ls)"
proof (induction ls arbitrary: rows)
  case Nil
  then show ?case by (simp add: List.map_filter_simps)
next
  case (Cons l ls)
  then show ?case
    by (auto simp: matches_date_line_def line_date_def flow_of_def table_cells_not_Nil Let_def
        List.map_filter_simps split: if_splits option.splits sum.splits)
qed

lemma parse_farside_dates:
  assumes "parse_farside_daily_flows page = Inr flows"
  shows "map date flows = sort (flow_dates page)"
proof -
  from assms obtain rows where
    r: "farside_rows (splitlines page) = Inr rows"
    and f: "flows = sort_key date (List.map_filter flow_of rows)"
    by (auto simp: parse_farside_daily_flows_def split: sum.splits if_splits)
  show ?thesis
    by (simp only: f map_sort_key farside_rows_flow_dates [OF r] flow_dates_def)
qed

lemma parse_ahr_dates:
  assumes "parse_ahr html = Inr points"
  shows "map date points = sort (ahr_dates html)"
  using assms
  by (auto simp: parse_ahr_def ahr_dates_def ahr_block_def Let_def map_sort_key
      split: option.splits sum.splits if_splits)

lemma mvrv_records_append:
  "mvrv_records parse (xs @ ys)
   = (case mvrv_records parse xs of
        Inl e \<Rightarrow> Inl e
      | Inr rs \<Rightarrow> (case mvrv_records parse ys of Inl e \<Rightarrow> Inl e | Inr rs' \<Rightarrow> Inr (rs @ rs')))"
  by (induction xs) (auto split: sum.splits)

lemma paginate_yielded:
  "paginate_coinmetrics parse fuel server base url = Some (Inr rows) \<Longrightarrow>
   \<exists>raw. yielded_rows fuel server base url = Some raw \<and> mvrv_records parse raw = Inr rows"
proof (induction fuel arbitrary: url rows)
  case 0
  then show ?case by simp
next
  case (Suc fuel)
  then show ?case
    by (fastforce simp: mvrv_records_append split: sum.splits option.splits if_splits)
qed

lemma mvrv_record_date:
  "mvrv_record parse row = Inr r \<Longrightarrow> row_date parse row = Some (date r)"
  by (auto simp: mvrv_record_def row_date_def split: sum.splits if_splits)

lemma mvrv_records_dates:
  "mvrv_records parse raw = Inr rows \<Longrightarrow>
   map date rows = List.map_filter (row_date parse) raw \<and> length rows = length raw"
proof (induction raw arbitrary: rows)
  case Nil
  then show ?case by (simp add: List.map_filter_simps)
next
  case (Cons a raw)
  then show ?case
    by (auto simp: List.map_filter_simps mvrv_record_date split: sum.splits)
qed

lemma fetch_mvrv_dates:
  assumes "fetch_mvrv_timeseries parse fuel server start today = Some (Inr rows)"
  shows "map date rows = sort (mvrv_dates parse fuel server start today)"
proof -
  from assms obtain unsorted where
    p: "paginate_coinmetrics parse fuel server (mvrv_base_url start today)
          (mvrv_base_url start today) = Some (Inr unsorted)"
    and s: "rows = sort_key date unsorted"
    by (auto simp: fetch_mvrv_timeseries_def split: option.splits sum.splits if_splits)
  from paginate_yielded [OF p] obtain raw where
    y: "yielded_rows fuel server (mvrv_base_url start today) (mvrv_base_url start today) = Some raw"
    and m: "mvrv_records parse raw = Inr unsorted"
    by blast
  show ?thesis
    using mvrv_records_dates [OF m] by (simp add: s map_sort_key mvrv_dates_def y)
qed

lemma sort_values_desc_mset: "mset (sort_values_desc df) = mset df"
proof -
  have "mset (filter (\<lambda>r. holding r \<noteq> NaN) df) + mset (filter (\<lambda>r. holding r = NaN) df) = mset df"
    using multiset_partition [of "mset df" "\<lambda>r. holding r \<noteq> NaN"] by simp
  then show ?thesis by (simp add: sort_values_desc_def)
qed

lemma ranked_take:
  assumes "ranked xs"
  shows "ranked (take k xs)"
proof -
  let ?A = "filter (\<lambda>r. holding r \<noteq> NaN) xs"
  let ?B = "filter (\<lambda>r. holding r = NaN) xs"
  from assms have x: "xs = ?A @ ?B"
    and s: "sorted (rev (map (\<lambda>r. fkey (holding r)) ?A))"
    by (simp_all add: ranked_def)
  have t: "take k (?A @ ?B) = take k ?A @ take (k - length ?A) ?B" by simp
  have a: "\<forall>r\<in>set (take k ?A). holding r \<noteq> NaN"
    using set_take_subset [of k ?A] by auto
  have b: "\<forall>r\<in>set (take (k - length ?A) ?B). holding r = NaN"
    using set_take_subset [of "k - length ?A" ?B] by auto
  have "sorted (rev (take k (map (\<lambda>r. fkey (holding r)) ?A)))"
    using s by (rule sorted_rev_take)
  then have c: "sorted (rev (map (\<lambda>r. fkey (holding r)) (take k ?A)))"
    by (simp add: take_map)
  have "ranked (take k (?A @ ?B))" unfolding t by (rule ranked_append [OF a b c])
  then show ?thesis using x by simp
qed

lemma filter_take_ranked:
  assumes "ranked xs"
  shows "filter (\<lambda>r. holding r \<noteq> NaN) (take k xs) = take k (filter (\<lambda>r. holding r \<noteq> NaN) xs)"
proof -
  let ?A = "filter (\<lambda>r. holding r \<noteq> NaN) xs"
  let ?B = "filter (\<lambda>r. holding r = NaN) xs"
  from assms have x: "xs = ?A @ ?B" by (simp add: ranked_def)
  have a: "filter (\<lambda>r. holding r \<noteq> NaN) (take k ?A) = take k ?A"
    using set_take_subset [of k ?A] by (auto simp: filter_id_conv)
  have b: "filter (\<lambda>r. holding r \<noteq> NaN) (take (k - length ?A) ?B) = []"
    using set_take_subset [of "k - length ?A" ?B] by (auto simp: filter_empty_conv)
  have "filter (\<lambda>r. holding r \<noteq> NaN) (take k (?A @ ?B)) = take k ?A"
    by (simp only: take_append filter_append a b append_Nil2)
  then show ?thesis using x by simp
qed

lemma head_take_nonneg: "0 \<le> n \<Longrightarrow> head n xs = take (nat n) xs"
  by (simp add: head_def)

lemma top_of_ranking_ranked:
  assumes "top_of_ranking df top_n tbl"
  shows "ranked tbl"
proof -
  from assms obtain full where r: "ranked full" and t: "tbl = head top_n full"
    by (auto simp: top_of_ranking_def)
  obtain k where "tbl = take k full" using head_is_take [of top_n full] t by auto
  then show ?thesis using ranked_take [OF r] by simp
qed

lemma top_of_ranking_length:
  assumes "top_of_ranking df top_n tbl" "0 \<le> top_n"
  shows "length tbl = min (nat top_n) (length df)"
proof -
  from assms(1) obtain full where m: "mset full = mset df" and t: "tbl = head top_n full"
    by (auto simp: top_of_ranking_def)
  have "length full = length df" using m by (rule mset_eq_length)
  then show ?thesis using assms(2) by (simp add: t head_take_nonneg min.commute)
qed

lemma top_of_ranking_strict:
  assumes "top_of_ranking df top_n tbl" "distinct (numeric_keys df)"
  shows "strictly_descending (map holding (filter (\<lambda>r. holding r \<noteq> NaN) tbl))"
proof -
  from assms(1) obtain full where m: "mset full = mset df" and r: "ranked full"
    and t: "tbl = head top_n full"
    by (auto simp: top_of_ranking_def)
  obtain k where k: "tbl = take k full" using head_is_take [of top_n full] t by auto
  let ?A = "filter (\<lambda>r. holding r \<noteq> NaN) full"
  let ?key = "\<lambda>r. fkey (holding r)"
  have "mset (map ?key ?A) = mset (numeric_keys df)"
    using m by (simp add: numeric_keys_def)
  then have d: "distinct (map ?key ?A)"
    using assms(2) mset_eq_imp_distinct_iff by blast
  have s: "sorted (rev (map ?key ?A))" using r by (simp add: ranked_def)
  have "sorted_wrt (<) (rev (map ?key ?A))"
    using s d by (simp add: strict_sorted_iff)
  then have "sorted_wrt (\<lambda>x y. y < x) (map ?key ?A)"
    by (simp add: sorted_wrt_rev)
  then have "sorted_wrt (\<lambda>x y. ?key y < ?key x) ?A"
    by (simp add: sorted_wrt_map)
  then have "sorted_wrt (\<lambda>x y. ?key y < ?key x) (take k ?A)"
    by (rule sorted_wrt_take)
  then have "strictly_descending (map holding (take k ?A))"
    by (simp add: strictly_descending_def sorted_wrt_map)
  then show ?thesis by (simp add: k filter_take_ranked [OF r])
qed

lemma sort_values_desc_ranked: "ranked (sort_values_desc df)"
  using ranked_take_sort_values [of "length (sort_values_desc df)" df] by simp

lemma top_of_ranking_sort_values: "top_of_ranking df top_n (head top_n (sort_values_desc df))"
  unfolding top_of_ranking_def
  using sort_values_desc_mset sort_values_desc_ranked by blast

lemma btc_top:
  assumes "fetch_btc_treasury_holdings server top_n = Inr tbl"
  shows "\<exists>df. apply_to_number 8
                (btc_rows (splitlines (body_text
                  (server (proxied_farside_url ''bitcoin-treasury-companies''))))) = Inr df
              \<and> df \<noteq> [] \<and> top_of_ranking df top_n tbl"
proof -
  let ?rows = "btc_rows (splitlines (body_text
                  (server (proxied_farside_url ''bitcoin-treasury-companies''))))"
  from assms obtain df where
    h1: "apply_to_number 8 ?rows = Inr df" and h2: "?rows \<noteq> []"
    and h3: "tbl = head top_n (sort_values_desc df)"
    by (auto simp: fetch_btc_treasury_holdings_def get_text_def Let_def
        split: sum.splits if_splits)
  have "df \<noteq> []" using apply_to_number_length [OF h1] h2 by auto
  then show ?thesis using h1 h3 top_of_ranking_sort_values by blast
qed

lemma eth_top:
  assumes "fetch_eth_treasury_holdings server top_n = Inr tbl"
  shows "\<exists>df. apply_to_number 3
                (eth_rows (splitlines (body_text
                  (server ''https://r.jina.ai/https://ethereumtreasuries.net/'')))) = Inr df
              \<and> df \<noteq> [] \<and> top_of_ranking df top_n tbl"
proof -
  let ?rows = "eth_rows (splitlines (body_text
                  (server ''https://r.jina.ai/https://ethereumtreasuries.net/'')))"
  from assms obtain df where
    h1: "apply_to_number 3 ?rows = Inr df" and h2: "?rows \<noteq> []"
    and h3: "tbl = head top_n (sort_values_desc df)"
    by (auto simp: fetch_eth_treasury_holdings_def get_text_def Let_def
        split: sum.splits if_splits)
  have "df \<noteq> []" using apply_to_number_length [OF h1] h2 by auto
  then show ?thesis using h1 h3 top_of_ranking_sort_values by blast
qed

lemma sol_top:
  assumes "fetch_sol_treasury_holdings server top_n = Inr tbl"
  shows "\<exists>df. apply_to_number 3
                (sol_rows (splitlines (body_text
                  (server ''https://r.jina.ai/https://www.coingecko.com/en/treasuries/solana'')))) = Inr df
              \<and> df \<noteq> [] \<and> top_of_ranking df top_n tbl"
proof -
  let ?rows = "sol_rows (splitlines (body_text
                  (server ''https://r.jina.ai/https://www.coingecko.com/en/treasuries/solana'')))"
  from assms obtain df where
    h1: "apply_to_number 3 ?rows = Inr df" and h2: "?rows \<noteq> []"
    and h3: "tbl = head top_n (sort_values_desc df)"
    by (auto simp: fetch_sol_treasury_holdings_def get_text_def Let_def
        split: sum.splits if_splits)
  have "df \<noteq> []" using apply_to_number_length [OF h1] h2 by auto
  then show ?thesis using h1 h3 top_of_ranking_sort_values by blast
qed

section \<open>Properties of the AHR999, MVRV and market-cap parsers\<close>

lemma parse_ahr_mismatch:
  assumes "ahr_block html data_key = Some values_block"
    and "ahr_block html labels_key = Some labels_block"
    and "length (raw_values_of values_block) \<noteq> length (raw_labels_of labels_block)"
  shows "parse_ahr html = Inl count_mismatch"
  using assms
  by (auto simp: parse_ahr_def ahr_block_def count_mismatch_def Let_def split: option.splits)

lemma fetch_ahr_ok:
  "status_code (server ahr_url) = 200 \<Longrightarrow>
   fetch_ahr_timeseries server = parse_ahr (body_text (server ahr_url))"
  by (simp add: fetch_ahr_timeseries_def get_text_def)

lemma length_map_filter_le: "length (List.map_filter f xs) \<le> length xs"
  by (induction xs) (auto simp: List.map_filter_simps split: option.splits)

lemma floats_of_length: "floats_of vs = Inr xs \<Longrightarrow> length xs = length vs"
  by (induction vs arbitrary: xs) (auto split: option.splits sum.splits)

lemma parse_ahr_counts:
  assumes "parse_ahr html = Inr points"
  shows "\<exists>values_block labels_block.
           ahr_block html data_key = Some values_block
           \<and> ahr_block html labels_key = Some labels_block
           \<and> length (raw_values_of values_block) = length (raw_labels_of labels_block)
           \<and> length points \<le> length (raw_labels_of labels_block)"
proof -
  from assms obtain vb lb vals where
    b: "ahr_block html data_key = Some vb" "ahr_block html labels_key = Some lb"
    and l: "length (raw_values_of vb) = length (raw_labels_of lb)"
    and f: "floats_of (raw_values_of vb) = Inr vals"
    and p: "points = sort_key date (List.map_filter ahr_of
              (zip (map to_datetime_ymd (raw_labels_of lb)) vals))"
    by (auto simp: parse_ahr_def ahr_block_def Let_def split: option.splits sum.splits if_splits)
  have "length points \<le> length (zip (map to_datetime_ymd (raw_labels_of lb)) vals)"
    unfolding p by (simp only: length_sort length_map_filter_le)
  then have "length points \<le> length (raw_labels_of lb)" by simp
  with b l show ?thesis by blast
qed

lemma replace_single_append:
  "replace [c] new (xs @ ys) = replace [c] new xs @ replace [c] new ys"
  by (induction xs) (auto simp: startswith_def)

lemma replace_single_absent: "c \<notin> set xs \<Longrightarrow> replace [c] new xs = xs"
  by (induction xs) (auto simp: startswith_def)

lemma replace_trailing_Z:
  "CHR ''Z'' \<notin> set s \<Longrightarrow> replace ''Z'' ''+00:00'' (s @ ''Z'') = s @ ''+00:00''"
proof -
  assume a: "CHR ''Z'' \<notin> set s"
  have "replace ''Z'' ''+00:00'' ''Z'' = ''+00:00''" by (simp add: startswith_def)
  then show ?thesis
    using replace_single_append [of "CHR ''Z''" "''+00:00''" s "''Z''"]
      replace_single_absent [OF a, of "''+00:00''"]
    by simp
qed

lemma mvrv_record_accepted:
  assumes "mvrv_record parse row = Inr r"
  shows "\<exists>s. subscript_key row ''time'' = Inr (JStr s)
             \<and> parse (replace ''Z'' ''+00:00'' s) = Some (date r)"
  using assms
  by (auto simp: mvrv_record_def timestamp_date_def
      split: sum.splits json.splits option.splits if_splits)

lemma mvrv_record_missing:
  "subscript_key row ''time'' = Inl KeyError \<Longrightarrow> mvrv_record parse row = Inl invalid_timestamp"
  by (simp add: mvrv_record_def timestamp_date_def invalid_timestamp_def)

lemma mvrv_record_malformed:
  "subscript_key row ''time'' = Inr (JStr s) \<Longrightarrow> parse (replace ''Z'' ''+00:00'' s) = None \<Longrightarrow>
   mvrv_record parse row = Inl invalid_timestamp"
  by (simp add: mvrv_record_def timestamp_date_def invalid_timestamp_def)

lemma mvrv_records_stop:
  "mvrv_records parse pre = Inr accepted \<Longrightarrow> mvrv_record parse row = Inl e \<Longrightarrow>
   mvrv_records parse (pre @ row # post) = Inl e"
  by (simp add: mvrv_records_append)

lemma paginate_stop:
  assumes "request_json server url = Inr payload"
    and "dict_get_default payload ''data'' (JArr []) = Inr (JArr (pre @ row # post))"
    and "mvrv_records parse pre = Inr accepted"
    and "mvrv_record parse row = Inl e"
  shows "paginate_coinmetrics parse (Suc fuel) server base_url url = Some (Inl e)"
  using assms mvrv_records_stop [OF assms(3,4), of post]
  by (simp add: iterate_def)

lemma fetch_mvrv_stop:
  assumes "request_json server (mvrv_base_url start today) = Inr payload"
    and "dict_get_default payload ''data'' (JArr []) = Inr (JArr (pre @ row # post))"
    and "mvrv_records parse pre = Inr accepted"
    and "mvrv_record parse row = Inl e"
  shows "fetch_mvrv_timeseries parse (Suc fuel) server start today = Some (Inl e)"
  using paginate_stop [OF assms, of fuel "mvrv_base_url start today"]
  by (simp add: fetch_mvrv_timeseries_def)

lemma mvrv_records_all_dated:
  "mvrv_records parse raw = Inr rows \<Longrightarrow> list_all (\<lambda>r. row_date parse r \<noteq> None) raw"
proof (induction raw arbitrary: rows)
  case Nil
  then show ?case by simp
next
  case (Cons a raw)
  from Cons.prems obtain x xs where
    x: "mvrv_record parse a = Inr x" and xs: "mvrv_records parse raw = Inr xs"
    by (auto split: sum.splits)
  have "row_date parse a = Some (date x)" using x by (rule mvrv_record_date)
  then have "row_date parse a \<noteq> None" by (simp only: option.distinct not_False_eq_True)
  moreover have "list_all (\<lambda>r. row_date parse r \<noteq> None) raw" using xs by (rule Cons.IH)
  ultimately show ?case by (simp only: list.pred_inject simp_thms)
qed

lemma fetch_mvrv_none_skipped:
  assumes "fetch_mvrv_timeseries parse fuel server start today = Some (Inr rows)"
  shows "\<exists>raw. yielded_rows fuel server (mvrv_base_url start today) (mvrv_base_url start today)
                 = Some raw
               \<and> length rows = length raw \<and> list_all (\<lambda>r. row_date parse r \<noteq> None) raw"
proof -
  from assms obtain unsorted where
    p: "paginate_coinmetrics parse fuel server (mvrv_base_url start today)
          (mvrv_base_url start today) = Some (Inr unsorted)"
    and s: "rows = sort_key date unsorted"
    by (auto simp: fetch_mvrv_timeseries_def split: option.splits sum.splits if_splits)
  from paginate_yielded [OF p] obtain raw where
    y: "yielded_rows fuel server (mvrv_base_url start today) (mvrv_base_url start today) = Some raw"
    and m: "mvrv_records parse raw = Inr unsorted"
    by blast
  have "length rows = length raw" using mvrv_records_dates [OF m] by (simp add: s)
  then show ?thesis using y mvrv_records_all_dated [OF m] by blast
qed

lemma fmul_positive: "0 < c \<Longrightarrow> fmul (Fin g) (Fin c) = fl (g * c)"
  by (auto simp: fmul_def fl_def abs_mult mult_less_0_iff zero_less_mult_iff
      not_less not_le mult_le_0_iff)

lemma fdiv_positive: "0 < b \<Longrightarrow> fdiv (Fin a) (Fin b) = fl (a / b)"
  by (auto simp: fdiv_def fl_def is_zero_def divide_less_0_iff not_less not_le)

lemma total_oz_eval:
  "int_times_float TOTAL_ABOVE_GROUND_GOLD_TONNES TONNES_TO_TROY_OZ
   = Fin (205000 * (321507466 / 10000))"
  by code_simp

lemma fetch_market_caps_gold:
  assumes "fetch_market_caps server = Inr snap"
  shows "gold_market_cap snap
         = fmul (gold_price snap)
             (int_times_float TOTAL_ABOVE_GROUND_GOLD_TONNES TONNES_TO_TROY_OZ)"
  using assms
  by (auto simp: fetch_market_caps_def Let_def split: sum.splits if_splits)

lemma gold_cap_formula:
  assumes "fetch_market_caps server = Inr snap" "gold_price snap = Fin g"
  shows "gold_market_cap snap = fl (g * 205000 * (321507466 / 10000))"
proof -
  have "gold_market_cap snap = fmul (Fin g) (Fin (205000 * (321507466 / 10000)))"
    using fetch_market_caps_gold [OF assms(1)] by (simp only: assms(2) total_oz_eval)
  also have "\<dots> = fl (g * (205000 * (321507466 / 10000)))"
    by (rule fmul_positive) simp
  finally show ?thesis by (simp only: mult.assoc)
qed

lemma upside_formula:
  assumes "btc_market_cap snap = Fin b" "gold_market_cap snap = Fin a" "0 < b"
  shows "gold_vs_btc_upside snap = fl (a / b)"
  using assms fdiv_positive [OF assms(3), of a]
  by (simp add: gold_vs_btc_upside_def truthy_def is_zero_def)

section \<open>The parsers on example inputs\<close>

lemma flows_dup_eval:
  "parse_farside_daily_flows (lines_text [''| 01 Jan 2024 | 5 |'', ''| 01 Jan 2024 | 5 |''])
   = Inr [\<lparr>date = (2024, 1, 1), date_str = ''01 Jan 2024'', total_flow = Fin 5\<rparr>,
          \<lparr>date = (2024, 1, 1), date_str = ''01 Jan 2024'', total_flow = Fin 5\<rparr>]"
  by code_simp

lemma flows_dup_not_strict:
  "\<not> sorted_wrt (<)
       (map date [\<lparr>date = (2024, 1, 1), date_str = ''01 Jan 2024'', total_flow = Fin 5\<rparr>,
                  \<lparr>date = (2024, 1, 1), date_str = ''01 Jan 2024'', total_flow = Fin 5\<rparr>])"
  by code_simp

lemma flows_dup_not_distinct:
  "\<not> distinct
       (map date [\<lparr>date = (2024, 1, 1), date_str = ''01 Jan 2024'', total_flow = Fin 5\<rparr>,
                  \<lparr>date = (2024, 1, 1), date_str = ''01 Jan 2024'', total_flow = Fin 5\<rparr>])"
  by code_simp

lemma flows_eval: "parse_farside_daily_flows example_flows_text = Inr example_flows"
  by code_simp





lemma ahr_eval: "parse_ahr example_ahr_page = Inr example_ahr"
  by code_simp

lemma mvrv_eval:
  "fetch_mvrv_timeseries fromisoformat_v37 2 example_mvrv_server (2024, 1, 1) (2024, 2, 1)
   = Some (Inr example_mvrv)"
  by code_simp


lemma btc_ties_eval:
  "map_sum id (map holding) (fetch_btc_treasury_holdings ties_server 15)
   = Inr [Fin 100, Fin 100, Fin 50]"
  by code_simp

lemma btc_negative_eval:
  "map_sum id (map holding) (fetch_btc_treasury_holdings ties_server (- 1))
   = Inr [Fin 100, Fin 100]"
  by code_simp

lemma not_strict: "\<not> strictly_descending [Fin 100, Fin 100, Fin 50]"
  by code_simp

lemma btc_full_eval: "fetch_btc_treasury_holdings example_btc_server 2 = Inr example_btc"
  by code_simp

lemma eth_full_eval: "fetch_eth_treasury_holdings example_eth_server 15 = Inr example_eth"
  by code_simp

lemma sol_full_eval: "fetch_sol_treasury_holdings example_sol_server 1 = Inr example_sol"
  by code_simp

lemma flows_dates_distinct: "distinct (flow_dates example_flows_text)"
  by code_simp

lemma ahr_dates_distinct: "distinct (ahr_dates example_ahr_page)"
  by code_simp

lemma mvrv_dates_distinct:
  "distinct (mvrv_dates fromisoformat_v37 2 example_mvrv_server (2024, 1, 1) (2024, 2, 1))"
  by code_simp

lemma btc_frame_top: "head 2 (sort_values_desc example_btc_frame) = example_btc"
  by code_simp

lemma btc_frame_distinct: "distinct (numeric_keys example_btc_frame)"
  by code_simp


lemma mismatch_values_block:
  "ahr_block example_mismatch_page data_key = Some ''1.5,0.25,2''"
  by code_simp

lemma mismatch_labels_block:
  "ahr_block example_mismatch_page labels_key
   = Some (quoted ''2024-01-03'' @ '','' @ quoted ''2024-01-01'')"
  by code_simp

lemma mismatch_counts:
  "length (raw_values_of ''1.5,0.25,2'')
   \<noteq> length (raw_labels_of (quoted ''2024-01-03'' @ '','' @ quoted ''2024-01-01''))"
  by code_simp

lemma mismatch_counts_values: "length (raw_values_of ''1.5,0.25,2'') = 3"
  by code_simp

lemma mismatch_counts_labels:
  "length (raw_labels_of (quoted ''2024-01-03'' @ '','' @ quoted ''2024-01-01'')) = 2"
  by code_simp

lemma mismatch_status: "status_code (ok_page example_mismatch_page) = 200"
  by (simp add: ok_page_def)

lemma mismatch_body: "body_text (ok_page example_mismatch_page) = example_mismatch_page"
  by (simp add: ok_page_def)

lemma good_row_eval: "mvrv_record fromisoformat_v37 good_row = Inr good_record"
  by code_simp

lemma good_rows_eval: "mvrv_records fromisoformat_v37 [good_row] = Inr [good_record]"
  by code_simp

lemma no_Z_eval: "CHR ''Z'' \<notin> set ''2024-01-02T00:00:00''"
  by code_simp

lemma time_missing_eval: "lookup time_missing_fields ''time'' = None"
  by code_simp

lemma malformed_time_eval: "lookup malformed_fields ''time'' = Some (JStr ''yesterday'')"
  by code_simp

lemma malformed_parse_eval: "fromisoformat_v37 (replace ''Z'' ''+00:00'' ''yesterday'') = None"
  by code_simp

lemma page_request_eval:
  "request_json (page_of_rows rows) url = Inr (JObj [(''data'', JArr rows)])"
  by (simp add: request_json_def page_of_rows_def ok_json_def)

lemma page_data_eval:
  "dict_get_default (JObj [(''data'', JArr rows)]) ''data'' (JArr []) = Inr (JArr rows)"
  by (simp add: dict_get_default_def lookup_def)

lemma missing_metric_eval:
  "fetch_mvrv_timeseries fromisoformat_v37 1 (page_of_rows [row_without_market_cap])
     (2024, 1, 1) (2024, 2, 1) = Some (Inl KeyError)"
  by code_simp

lemma non_numeric_metric_eval:
  "fetch_mvrv_timeseries fromisoformat_v37 1
     (page_of_rows [metrics_row ''2024-01-01T00:00:00Z'' ''n/a'']) (2024, 1, 1) (2024, 2, 1)
   = Some (Inl ValueError)"
  by code_simp

lemma null_time_eval:
  "fetch_mvrv_timeseries fromisoformat_v37 1 (page_of_rows [row_with_null_time])
     (2024, 1, 1) (2024, 2, 1) = Some (Inl AttributeError)"
  by code_simp

lemma m2_bad_year_eval:
  "fetch_global_m2
     (\<lambda>url. ok_json (JArr [JObj [(''page'', JInt 1)],
                            JArr [JObj [(''value'', JInt 5), (''date'', JStr ''2020Q1'')]]]))
   = Inl ValueError"
  by code_simp

lemma m2_short_payload_eval:
  "fetch_global_m2 (\<lambda>url. ok_json (JArr [JObj [(''message'', JStr ''Invalid value'')]]))
   = Inl IndexError"
  by code_simp

lemma caps_eval: "fetch_market_caps example_caps_server = Inr example_snapshot"
  by code_simp

lemma upside_eval:
  "fl (13181806106000 / 1200000000000) = Fin (193247321181809 / 17592186044416)"
  by code_simp

lemma snapshot_fields:
  "gold_price example_snapshot = Fin 2000"
  "btc_market_cap example_snapshot = Fin 1200000000000"
  "gold_market_cap example_snapshot = Fin 13181806106000"
  by (simp_all add: example_snapshot_def)

lemma gold_product_eval: "fl (2000 * 205000 * (321507466 / 10000)) = Fin 13181806106000"
  by code_simp

lemma numeric_time_eval:
  "fetch_mvrv_timeseries fromisoformat_v37 1 (page_of_rows [row_with_numeric_time])
     (2024, 1, 1) (2024, 2, 1) = Some (Inl AttributeError)"
  by code_simp

lemma snapshot_truthy: "truthy (btc_market_cap example_snapshot)"
  by code_simp

section \<open>Time series tables\<close>

text \<open>
  C2, as the claim states it, fails: no parser removes rows with equal dates.  A text
  with the same date on two lines gives a table with that date twice, which is neither
  strictly ascending nor free of duplicates.
\<close>

theorem duplicate_dates_are_kept:
  "parse_farside_daily_flows (lines_text [''| 01 Jan 2024 | 5 |'', ''| 01 Jan 2024 | 5 |''])
   = Inr [\<lparr>date = (2024, 1, 1), date_str = ''01 Jan 2024'', total_flow = Fin 5\<rparr>,
          \<lparr>date = (2024, 1, 1), date_str = ''01 Jan 2024'', total_flow = Fin 5\<rparr>]
   \<and> \<not> sorted_wrt (<)
         (map date [\<lparr>date = (2024, 1, 1), date_str = ''01 Jan 2024'', total_flow = Fin 5\<rparr>,
                    \<lparr>date = (2024, 1, 1), date_str = ''01 Jan 2024'', total_flow = Fin 5\<rparr>])
   \<and> \<not> distinct
         (map date [\<lparr>date = (2024, 1, 1), date_str = ''01 Jan 2024'', total_flow = Fin 5\<rparr>,
                    \<lparr>date = (2024, 1, 1), date_str = ''01 Jan 2024'', total_flow = Fin 5\<rparr>])"
  by (intro conjI) (rule flows_dup_eval flows_dup_not_strict flows_dup_not_distinct)+

text \<open>
  C2, amended.  The date column of every table that the ETF-flow parser, the AHR999
  parser and the MVRV fetcher return is the sorted list of the dates of the payload:
  every date of the payload that parses is in the table as often as the payload has it,
  in ascending order.  So the table is strictly ascending, and free of duplicate dates,
  exactly when the payload repeats no date.
\<close>

theorem time_series_sorted:
  "(parse_farside_daily_flows page = Inr flows \<longrightarrow>
      map date flows = sort (flow_dates page) \<and> sorted (map date flows)
      \<and> (sorted_wrt (<) (map date flows) \<longleftrightarrow> distinct (flow_dates page))
      \<and> (distinct (map date flows) \<longleftrightarrow> distinct (flow_dates page)))
   \<and> (parse_ahr html = Inr points \<longrightarrow>
      map date points = sort (ahr_dates html) \<and> sorted (map date points)
      \<and> (sorted_wrt (<) (map date points) \<longleftrightarrow> distinct (ahr_dates html))
      \<and> (distinct (map date points) \<longleftrightarrow> distinct (ahr_dates html)))
   \<and> (fetch_mvrv_timeseries parse fuel server start today = Some (Inr rows) \<longrightarrow>
      map date rows = sort (mvrv_dates parse fuel server start today) \<and> sorted (map date rows)
      \<and> (sorted_wrt (<) (map date rows)
           \<longleftrightarrow> distinct (mvrv_dates parse fuel server start today))
      \<and> (distinct (map date rows) \<longleftrightarrow> distinct (mvrv_dates parse fuel server start today)))"
proof -
  have column: "sorted (map date t) \<and> (sorted_wrt (<) (map date t) \<longleftrightarrow> distinct ds)
                \<and> (distinct (map date t) \<longleftrightarrow> distinct ds)"
    if "map date t = sort ds" for t :: "('a dated_scheme) list" and ds
    using that by (simp add: strict_sorted_iff)
  show ?thesis
    using parse_farside_dates [of page flows] parse_ahr_dates [of html points]
      fetch_mvrv_dates [of parse fuel server start today rows]
      column [of flows "flow_dates page"] column [of points "ahr_dates html"]
      column [of rows "mvrv_dates parse fuel server start today"]
    by blast
qed

theorem time_series_sorted_witness:
  "parse_farside_daily_flows example_flows_text = Inr example_flows
   \<and> map date example_flows = sort (flow_dates example_flows_text)
   \<and> distinct (flow_dates example_flows_text)
   \<and> sorted_wrt (<) (map date example_flows)
   \<and> parse_ahr example_ahr_page = Inr example_ahr
   \<and> map date example_ahr = sort (ahr_dates example_ahr_page)
   \<and> distinct (ahr_dates example_ahr_page)
   \<and> sorted_wrt (<) (map date example_ahr)
   \<and> fetch_mvrv_timeseries fromisoformat_v37 2 example_mvrv_server (2024, 1, 1) (2024, 2, 1)
       = Some (Inr example_mvrv)
   \<and> map date example_mvrv
       = sort (mvrv_dates fromisoformat_v37 2 example_mvrv_server (2024, 1, 1) (2024, 2, 1))
   \<and> distinct (mvrv_dates fromisoformat_v37 2 example_mvrv_server (2024, 1, 1) (2024, 2, 1))
   \<and> sorted_wrt (<) (map date example_mvrv)"
proof -
  note f = time_series_sorted [THEN conjunct1, THEN mp, OF flows_eval]
  note a = time_series_sorted [THEN conjunct2, THEN conjunct1, THEN mp, OF ahr_eval]
  note m = time_series_sorted [THEN conjunct2, THEN conjunct2, THEN mp, OF mvrv_eval]
  show ?thesis
    by (intro conjI)
      (rule flows_eval ahr_eval mvrv_eval flows_dates_distinct ahr_dates_distinct
        mvrv_dates_distinct f [THEN conjunct1] a [THEN conjunct1] m [THEN conjunct1]
        f [THEN conjunct2, THEN conjunct2, THEN conjunct1, THEN iffD2, OF flows_dates_distinct]
        a [THEN conjunct2, THEN conjunct2, THEN conjunct1, THEN iffD2, OF ahr_dates_distinct]
        m [THEN conjunct2, THEN conjunct2, THEN conjunct1, THEN iffD2, OF mvrv_dates_distinct])+
qed

section \<open>Treasury tables\<close>

text \<open>
  C3, as the claim states it, fails twice.  Two companies with the same holding follow
  each other in the table, so the order is not strict; and \<open>head\<close> with a negative
  \<open>top_n\<close> leaves out the last rows instead of returning at most \<open>top_n\<close> rows: of three
  rows, \<open>top_n = -1\<close> returns two.
\<close>

theorem treasury_ties_and_negative_top_n:
  "map_sum id (map holding) (fetch_btc_treasury_holdings ties_server 15)
   = Inr [Fin 100, Fin 100, Fin 50]
   \<and> \<not> strictly_descending [Fin 100, Fin 100, Fin 50]
   \<and> map_sum id (map holding) (fetch_btc_treasury_holdings ties_server (- 1))
   = Inr [Fin 100, Fin 100]
   \<and> \<not> int (length [Fin 100, Fin 100]) \<le> - 1"
proof -
  have short: "\<not> int (length [Fin 100, Fin 100]) \<le> - 1" by simp
  show ?thesis
    by (intro conjI) (rule btc_ties_eval btc_negative_eval not_strict short)+
qed

text \<open>
  C3, amended.  A table that a treasury fetcher returns is what \<open>head\<close> takes from a
  ranking of all the decoded rows of the page, of which there is at least one.  Such a
  table is ranked: its rows with a number come first in descending order, where equal
  holdings may follow each other, and its rows whose holding is NaN come after all of
  them.  For a \<open>top_n\<close> that is not negative it has \<open>top_n\<close> rows, or all rows when the
  page has fewer; and when no two numeric holdings of the page are equal, its numeric
  holdings are strictly descending.
\<close>

theorem treasury_table_ranked:
  "(fetch_btc_treasury_holdings server top_n = Inr tbl \<longrightarrow>
      (\<exists>df. apply_to_number 8
               (btc_rows (splitlines (body_text
                 (server (proxied_farside_url ''bitcoin-treasury-companies''))))) = Inr df
            \<and> df \<noteq> [] \<and> top_of_ranking df top_n tbl))
   \<and> (fetch_eth_treasury_holdings server top_n = Inr tbl \<longrightarrow>
      (\<exists>df. apply_to_number 3
               (eth_rows (splitlines (body_text
                 (server ''https://r.jina.ai/https://ethereumtreasuries.net/'')))) = Inr df
            \<and> df \<noteq> [] \<and> top_of_ranking df top_n tbl))
   \<and> (fetch_sol_treasury_holdings server top_n = Inr tbl \<longrightarrow>
      (\<exists>df. apply_to_number 3
               (sol_rows (splitlines (body_text
                 (server ''https://r.jina.ai/https://www.coingecko.com/en/treasuries/solana''))))
             = Inr df
            \<and> df \<noteq> [] \<and> top_of_ranking df top_n tbl))
   \<and> (top_of_ranking frame top_n tbl \<longrightarrow>
        ranked tbl
        \<and> (0 \<le> top_n \<longrightarrow> length tbl = min (nat top_n) (length frame))
        \<and> (distinct (numeric_keys frame) \<longrightarrow>
             strictly_descending (map holding (filter (\<lambda>r. holding r \<noteq> NaN) tbl))))"
  using btc_top [of server top_n tbl] eth_top [of server top_n tbl] sol_top [of server top_n tbl]
    top_of_ranking_ranked [of frame top_n tbl] top_of_ranking_length [of frame top_n tbl]
    top_of_ranking_strict [of frame top_n tbl]
  by blast

theorem treasury_table_ranked_witness:
  "fetch_btc_treasury_holdings example_btc_server 2 = Inr example_btc
   \<and> (\<exists>df. apply_to_number 8
              (btc_rows (splitlines (body_text
                (example_btc_server (proxied_farside_url ''bitcoin-treasury-companies''))))) = Inr df
           \<and> df \<noteq> [] \<and> top_of_ranking df 2 example_btc)
   \<and> fetch_eth_treasury_holdings example_eth_server 15 = Inr example_eth
   \<and> (\<exists>df. apply_to_number 3
              (eth_rows (splitlines (body_text
                (example_eth_server ''https://r.jina.ai/https://ethereumtreasuries.net/'')))) = Inr df
           \<and> df \<noteq> [] \<and> top_of_ranking df 15 example_eth)
   \<and> fetch_sol_treasury_holdings example_sol_server 1 = Inr example_sol
   \<and> (\<exists>df. apply_to_number 3
              (sol_rows (splitlines (body_text
                (example_sol_server
                   ''https://r.jina.ai/https://www.coingecko.com/en/treasuries/solana''))))
            = Inr df
           \<and> df \<noteq> [] \<and> top_of_ranking df 1 example_sol)
   \<and> top_of_ranking example_btc_frame 2 example_btc
   \<and> (0::int) \<le> 2
   \<and> distinct (numeric_keys example_btc_frame)
   \<and> ranked example_btc
   \<and> length example_btc = min (nat 2) (length example_btc_frame)
   \<and> strictly_descending (map holding (filter (\<lambda>r. holding r \<noteq> NaN) example_btc))"
proof -
  have two: "(0::int) \<le> 2" by simp
  have top: "top_of_ranking example_btc_frame 2 example_btc"
    using top_of_ranking_sort_values [of example_btc_frame 2] by (simp only: btc_frame_top)
  note r = treasury_table_ranked
    [THEN conjunct2, THEN conjunct2, THEN conjunct2, THEN mp, OF top]
  show ?thesis
    by (intro conjI)
      (rule btc_full_eval eth_full_eval sol_full_eval two top btc_frame_distinct
        treasury_table_ranked [THEN conjunct1, THEN mp, OF btc_full_eval]
        treasury_table_ranked [THEN conjunct2, THEN conjunct1, THEN mp, OF eth_full_eval]
        treasury_table_ranked
          [THEN conjunct2, THEN conjunct2, THEN conjunct1, THEN mp, OF sol_full_eval]
        r [THEN conjunct1] r [THEN conjunct2, THEN conjunct1, THEN mp, OF two]
        r [THEN conjunct2, THEN conjunct2, THEN mp, OF btc_frame_distinct])+
qed

section \<open>Empty results\<close>






section \<open>The error channel\<close>

text \<open>
  C5.  The claim: every failure of a fetch surfaces as a \<open>DataFetchError\<close>, also when a
  numeric metric is missing or not a number, when the year of an M2 record is not an
  integer, and when the M2 payload has no second element.  The code converts the
  metrics and the year outside any \<open>try\<close> and indexes the payload unguarded: a row
  without \<open>CapMrktCurUSD\<close> raises \<open>KeyError\<close>, a metric \<open>n/a\<close> raises \<open>ValueError\<close>, the
  year \<open>2020Q1\<close> raises \<open>ValueError\<close> and a payload of one element raises \<open>IndexError\<close>.
\<close>

theorem other_exceptions_escape:
  "fetch_mvrv_timeseries fromisoformat_v37 1 (page_of_rows [row_without_market_cap])
     (2024, 1, 1) (2024, 2, 1) = Some (Inl KeyError)
   \<and> fetch_mvrv_timeseries fromisoformat_v37 1
       (page_of_rows [metrics_row ''2024-01-01T00:00:00Z'' ''n/a'']) (2024, 1, 1) (2024, 2, 1)
     = Some (Inl ValueError)
   \<and> fetch_global_m2
       (\<lambda>url. ok_json (JArr [JObj [(''page'', JInt 1)],
                              JArr [JObj [(''value'', JInt 5), (''date'', JStr ''2020Q1'')]]]))
     = Inl ValueError
   \<and> fetch_global_m2 (\<lambda>url. ok_json (JArr [JObj [(''message'', JStr ''Invalid value'')]]))
     = Inl IndexError"
  by (intro conjI)
    (rule missing_metric_eval non_numeric_metric_eval m2_bad_year_eval m2_short_payload_eval)+

section \<open>The market-cap snapshot\<close>

text \<open>
  C6.  The gold market cap of a snapshot is the floating-point product of its gold price
  and 205,000 times 32,150.7466 (the product of the two constants, as the code computes
  it in doubles, is exactly that number); for a finite price this is the double nearest
  to the product of the three numbers.  The upside of a snapshot whose BTC market cap is
  not zero is the floating-point quotient of the gold market cap and the BTC market cap;
  for a positive BTC market cap this is the double nearest to the quotient.  For a BTC
  price of 60000, a BTC market cap of 1.2e12 and a gold price of 2000 the gold market
  cap is 13181806106000, which is 1.3182e13 to five digits, and the upside is
  10.9848..., which is 10.98 to two decimals.
\<close>

theorem gold_market_cap_formula:
  "(fetch_market_caps server = Inr snap
      \<longrightarrow> gold_market_cap snap
          = fmul (gold_price snap) (Fin (205000 * (321507466 / 10000))))
   \<and> fmul (Fin g) (Fin (205000 * (321507466 / 10000))) = fl (g * 205000 * (321507466 / 10000))
   \<and> (truthy (btc_market_cap snap)
      \<longrightarrow> gold_vs_btc_upside snap = fdiv (gold_market_cap snap) (btc_market_cap snap))
   \<and> (0 < b \<longrightarrow> fdiv (Fin a) (Fin b) = fl (a / b))
   \<and> fetch_market_caps example_caps_server = Inr example_snapshot
   \<and> gold_market_cap example_snapshot = Fin 13181806106000
   \<and> \<bar>13181806106000 - 13182000000000\<bar> < (500000000 :: rat)
   \<and> gold_vs_btc_upside example_snapshot = Fin (193247321181809 / 17592186044416)
   \<and> \<bar>193247321181809 / 17592186044416 - 1098 / 100\<bar> < (5 / 1000 :: rat)"
proof -
  have pos: "(0::rat) < 1200000000000" by simp
  have u: "gold_vs_btc_upside example_snapshot = Fin (193247321181809 / 17592186044416)"
    using upside_formula [OF snapshot_fields(2) snapshot_fields(3) pos]
    by (simp only: upside_eval)
  have n1: "\<bar>13181806106000 - 13182000000000\<bar> < (500000000 :: rat)" by simp
  have n2: "\<bar>193247321181809 / 17592186044416 - 1098 / 100\<bar> < (5 / 1000 :: rat)" by simp
  have c: "(0::rat) < 205000 * (321507466 / 10000)" by simp
  have m: "fmul (Fin g) (Fin (205000 * (321507466 / 10000)))
           = fl (g * 205000 * (321507466 / 10000))"
    using fmul_positive [OF c, of g] by (simp only: mult.assoc)
  have gold: "gold_market_cap snap = fmul (gold_price snap) (Fin (205000 * (321507466 / 10000)))"
    if "fetch_market_caps server = Inr snap"
    using fetch_market_caps_gold [OF that] by (simp only: total_oz_eval)
  have up: "gold_vs_btc_upside snap = fdiv (gold_market_cap snap) (btc_market_cap snap)"
    if "truthy (btc_market_cap snap)"
    using that by (simp add: gold_vs_btc_upside_def)
  show ?thesis
    using gold up m fdiv_positive [of b a] caps_eval snapshot_fields(3) u n1 n2
    by blast
qed

theorem gold_market_cap_formula_witness:
  "fetch_market_caps example_caps_server = Inr example_snapshot
   \<and> gold_market_cap example_snapshot
       = fmul (gold_price example_snapshot) (Fin (205000 * (321507466 / 10000)))
   \<and> gold_price example_snapshot = Fin 2000
   \<and> fl (2000 * 205000 * (321507466 / 10000)) = Fin 13181806106000
   \<and> truthy (btc_market_cap example_snapshot)
   \<and> gold_vs_btc_upside example_snapshot
       = fdiv (gold_market_cap example_snapshot) (btc_market_cap example_snapshot)
   \<and> (0::rat) < 1200000000000
   \<and> fdiv (Fin 13181806106000) (Fin 1200000000000) = fl (13181806106000 / 1200000000000)
   \<and> fl (13181806106000 / 1200000000000) = Fin (193247321181809 / 17592186044416)"
proof -
  have pos: "(0::rat) < 1200000000000" by simp
  note rest = gold_market_cap_formula [THEN conjunct2, THEN conjunct2]
  show ?thesis
    by (intro conjI)
      (rule caps_eval snapshot_fields(1) gold_product_eval snapshot_truthy pos upside_eval
        gold_market_cap_formula [THEN conjunct1, THEN mp, OF caps_eval]
        rest [THEN conjunct1, THEN mp, OF snapshot_truthy]
        rest [THEN conjunct2, THEN conjunct1, THEN mp, OF pos])+
qed

section \<open>The AHR999 arrays\<close>

text \<open>
  C8.  When the \<open>data\<close> array and the \<open>labels\<close> array after the anchor have different
  numbers of entries, the parser raises the Fetch Error of the count mismatch, whatever
  the entries are; this holds for the parser and for the fetcher on a page served with
  status 200.  A table is returned only for equal counts, and it is not longer than the
  arrays.
\<close>

theorem ahr_count_mismatch_raises:
  "(ahr_block html data_key = Some values_block
      \<and> ahr_block html labels_key = Some labels_block
      \<and> length (raw_values_of values_block) \<noteq> length (raw_labels_of labels_block)
      \<longrightarrow> parse_ahr html = Inl count_mismatch)
   \<and> (status_code (server ahr_url) = 200
      \<and> ahr_block (body_text (server ahr_url)) data_key = Some values_block
      \<and> ahr_block (body_text (server ahr_url)) labels_key = Some labels_block
      \<and> length (raw_values_of values_block) \<noteq> length (raw_labels_of labels_block)
      \<longrightarrow> fetch_ahr_timeseries server = Inl count_mismatch)
   \<and> (parse_ahr html = Inr points
      \<longrightarrow> (\<exists>vb lb. ahr_block html data_key = Some vb \<and> ahr_block html labels_key = Some lb
                   \<and> length (raw_values_of vb) = length (raw_labels_of lb)
                   \<and> length points \<le> length (raw_labels_of lb)))"
proof (intro conjI impI)
  assume h: "ahr_block html data_key = Some values_block
      \<and> ahr_block html labels_key = Some labels_block
      \<and> length (raw_values_of values_block) \<noteq> length (raw_labels_of labels_block)"
  show "parse_ahr html = Inl count_mismatch"
    using h parse_ahr_mismatch [of html values_block labels_block] by blast
next
  assume h: "status_code (server ahr_url) = 200
      \<and> ahr_block (body_text (server ahr_url)) data_key = Some values_block
      \<and> ahr_block (body_text (server ahr_url)) labels_key = Some labels_block
      \<and> length (raw_values_of values_block) \<noteq> length (raw_labels_of labels_block)"
  have "parse_ahr (body_text (server ahr_url)) = Inl count_mismatch"
    using h parse_ahr_mismatch [of "body_text (server ahr_url)" values_block labels_block]
    by blast
  then show "fetch_ahr_timeseries server = Inl count_mismatch"
    using h fetch_ahr_ok [of server] by simp
next
  assume "parse_ahr html = Inr points"
  then show "\<exists>vb lb. ahr_block html data_key = Some vb \<and> ahr_block html labels_key = Some lb
                   \<and> length (raw_values_of vb) = length (raw_labels_of lb)
                   \<and> length points \<le> length (raw_labels_of lb)"
    by (rule parse_ahr_counts)
qed


theorem ahr_count_mismatch_raises_witness:
  "ahr_block example_mismatch_page data_key = Some ''1.5,0.25,2''
   \<and> ahr_block example_mismatch_page labels_key
       = Some (quoted ''2024-01-03'' @ '','' @ quoted ''2024-01-01'')
   \<and> length (raw_values_of ''1.5,0.25,2'') = 3
   \<and> length (raw_labels_of (quoted ''2024-01-03'' @ '','' @ quoted ''2024-01-01'')) = 2
   \<and> parse_ahr example_mismatch_page = Inl count_mismatch
   \<and> status_code (ok_page example_mismatch_page) = 200
   \<and> fetch_ahr_timeseries (\<lambda>url. ok_page example_mismatch_page) = Inl count_mismatch
   \<and> parse_ahr example_ahr_page = Inr example_ahr
   \<and> (\<exists>vb lb. ahr_block example_ahr_page data_key = Some vb
               \<and> ahr_block example_ahr_page labels_key = Some lb
               \<and> length (raw_values_of vb) = length (raw_labels_of lb)
               \<and> length example_ahr \<le> length (raw_labels_of lb))"
proof -
  have blocks:
    "ahr_block example_mismatch_page data_key = Some ''1.5,0.25,2''
     \<and> ahr_block example_mismatch_page labels_key
         = Some (quoted ''2024-01-03'' @ '','' @ quoted ''2024-01-01'')
     \<and> length (raw_values_of ''1.5,0.25,2'')
         \<noteq> length (raw_labels_of (quoted ''2024-01-03'' @ '','' @ quoted ''2024-01-01''))"
    by (intro conjI) (rule mismatch_values_block mismatch_labels_block mismatch_counts)+
  have served:
    "status_code ((\<lambda>url. ok_page example_mismatch_page) ahr_url) = 200
     \<and> ahr_block (body_text ((\<lambda>url. ok_page example_mismatch_page) ahr_url)) data_key
         = Some ''1.5,0.25,2''
     \<and> ahr_block (body_text ((\<lambda>url. ok_page example_mismatch_page) ahr_url)) labels_key
         = Some (quoted ''2024-01-03'' @ '','' @ quoted ''2024-01-01'')
     \<and> length (raw_values_of ''1.5,0.25,2'')
         \<noteq> length (raw_labels_of (quoted ''2024-01-03'' @ '','' @ quoted ''2024-01-01''))"
    using blocks by (simp only: mismatch_status mismatch_body simp_thms)
  show ?thesis
    by (intro conjI)
      (rule mismatch_values_block mismatch_labels_block mismatch_counts_values
        mismatch_counts_labels mismatch_status ahr_eval
        ahr_count_mismatch_raises [THEN conjunct1, THEN mp, OF blocks]
        ahr_count_mismatch_raises [THEN conjunct2, THEN conjunct1, THEN mp, OF served]
        ahr_count_mismatch_raises [THEN conjunct2, THEN conjunct2, THEN mp, OF ahr_eval])+
qed

section \<open>The MVRV timestamps\<close>

text \<open>
  C9.  The claim: a row whose timestamp is missing or malformed makes the whole fetch
  raise a Fetch Error.  The code turns only \<open>KeyError\<close> and \<open>ValueError\<close> of the timestamp
  into a \<open>DataFetchError\<close>.  A row whose \<open>time\<close> is null, or a number, has no \<open>replace\<close>:
  the fetch ends with \<open>AttributeError\<close>.
\<close>

theorem non_string_time_escapes:
  "fetch_mvrv_timeseries fromisoformat_v37 1 (page_of_rows [row_with_null_time])
     (2024, 1, 1) (2024, 2, 1) = Some (Inl AttributeError)
   \<and> fetch_mvrv_timeseries fromisoformat_v37 1 (page_of_rows [row_with_numeric_time])
       (2024, 1, 1) (2024, 2, 1) = Some (Inl AttributeError)"
  by (intro conjI) (rule null_time_eval numeric_time_eval)+

text \<open>
  What holds of C9, for every version of \<open>fromisoformat\<close>.  A row is accepted only when
  its \<open>time\<close> is a string that \<open>fromisoformat\<close> reads after every \<open>Z\<close> has been replaced by
  \<open>+00:00\<close>, and its date is the date read; a timestamp whose only \<open>Z\<close> is its last
  character is read with \<open>+00:00\<close> in its place.  A row without \<open>time\<close>, and a row whose
  \<open>time\<close> is a string that is not read, raises the Fetch Error of the invalid timestamp;
  the run of the pages from the page of such a row on, and the fetch when the page is
  the first one, ends with that error when the rows before it on the page are accepted.
  No row is passed over: a fetch that returns a table has one row for each row that the
  pages yield, and each of them has a timestamp that is read.
\<close>

theorem mvrv_timestamp_required:
  "(mvrv_record parse row = Inr r
      \<longrightarrow> (\<exists>s. subscript_key row ''time'' = Inr (JStr s)
               \<and> parse (replace ''Z'' ''+00:00'' s) = Some (date r)))
   \<and> (CHR ''Z'' \<notin> set s \<longrightarrow> replace ''Z'' ''+00:00'' (s @ ''Z'') = s @ ''+00:00'')
   \<and> (lookup kvs ''time'' = None \<longrightarrow> mvrv_record parse (JObj kvs) = Inl invalid_timestamp)
   \<and> (lookup kvs ''time'' = Some (JStr t) \<and> parse (replace ''Z'' ''+00:00'' t) = None
      \<longrightarrow> mvrv_record parse (JObj kvs) = Inl invalid_timestamp)
   \<and> (request_json server url = Inr payload
      \<and> dict_get_default payload ''data'' (JArr []) = Inr (JArr (pre @ row # post))
      \<and> mvrv_records parse pre = Inr accepted
      \<and> mvrv_record parse row = Inl invalid_timestamp
      \<longrightarrow> paginate_coinmetrics parse (Suc fuel) server base_url url = Some (Inl invalid_timestamp))
   \<and> (request_json server (mvrv_base_url start today) = Inr payload
      \<and> dict_get_default payload ''data'' (JArr []) = Inr (JArr (pre @ row # post))
      \<and> mvrv_records parse pre = Inr accepted
      \<and> mvrv_record parse row = Inl invalid_timestamp
      \<longrightarrow> fetch_mvrv_timeseries parse (Suc fuel) server start today
          = Some (Inl invalid_timestamp))
   \<and> (fetch_mvrv_timeseries parse fuel server start today = Some (Inr rows)
      \<longrightarrow> (\<exists>raw. yielded_rows fuel server (mvrv_base_url start today)
                     (mvrv_base_url start today) = Some raw
                 \<and> length rows = length raw
                 \<and> list_all (\<lambda>x. row_date parse x \<noteq> None) raw))"
proof (intro conjI impI)
  assume "mvrv_record parse row = Inr r"
  then show "\<exists>s. subscript_key row ''time'' = Inr (JStr s)
               \<and> parse (replace ''Z'' ''+00:00'' s) = Some (date r)"
    by (rule mvrv_record_accepted)
next
  assume "CHR ''Z'' \<notin> set s"
  then show "replace ''Z'' ''+00:00'' (s @ ''Z'') = s @ ''+00:00''"
    by (rule replace_trailing_Z)
next
  assume "lookup kvs ''time'' = None"
  then have "subscript_key (JObj kvs) ''time'' = Inl KeyError"
    by (simp add: subscript_key_def)
  then show "mvrv_record parse (JObj kvs) = Inl invalid_timestamp"
    by (rule mvrv_record_missing)
next
  assume h: "lookup kvs ''time'' = Some (JStr t) \<and> parse (replace ''Z'' ''+00:00'' t) = None"
  then have "subscript_key (JObj kvs) ''time'' = Inr (JStr t)"
    by (simp add: subscript_key_def)
  then show "mvrv_record parse (JObj kvs) = Inl invalid_timestamp"
    using h by (simp add: mvrv_record_malformed)
next
  assume h: "request_json server url = Inr payload
      \<and> dict_get_default payload ''data'' (JArr []) = Inr (JArr (pre @ row # post))
      \<and> mvrv_records parse pre = Inr accepted
      \<and> mvrv_record parse row = Inl invalid_timestamp"
  show "paginate_coinmetrics parse (Suc fuel) server base_url url = Some (Inl invalid_timestamp)"
    using h paginate_stop [of server url payload pre row post parse accepted invalid_timestamp]
    by blast
next
  assume h: "request_json server (mvrv_base_url start today) = Inr payload
      \<and> dict_get_default payload ''data'' (JArr []) = Inr (JArr (pre @ row # post))
      \<and> mvrv_records parse pre = Inr accepted
      \<and> mvrv_record parse row = Inl invalid_timestamp"
  show "fetch_mvrv_timeseries parse (Suc fuel) server start today = Some (Inl invalid_timestamp)"
    using h fetch_mvrv_stop [of server start today payload pre row post parse accepted
        invalid_timestamp]
    by blast
next
  assume "fetch_mvrv_timeseries parse fuel server start today = Some (Inr rows)"
  then show "\<exists>raw. yielded_rows fuel server (mvrv_base_url start today)
                     (mvrv_base_url start today) = Some raw
                 \<and> length rows = length raw
                 \<and> list_all (\<lambda>x. row_date parse x \<noteq> None) raw"
    by (rule fetch_mvrv_none_skipped)
qed

theorem mvrv_timestamp_required_witness:
  "mvrv_record fromisoformat_v37 good_row = Inr good_record
   \<and> (\<exists>s. subscript_key good_row ''time'' = Inr (JStr s)
            \<and> fromisoformat_v37 (replace ''Z'' ''+00:00'' s) = Some (date good_record))
   \<and> CHR ''Z'' \<notin> set ''2024-01-02T00:00:00''
   \<and> replace ''Z'' ''+00:00'' (''2024-01-02T00:00:00'' @ ''Z'') = ''2024-01-02T00:00:00'' @ ''+00:00''
   \<and> lookup time_missing_fields ''time'' = None
   \<and> mvrv_record fromisoformat_v37 (JObj time_missing_fields) = Inl invalid_timestamp
   \<and> lookup malformed_fields ''time'' = Some (JStr ''yesterday'')
   \<and> fromisoformat_v37 (replace ''Z'' ''+00:00'' ''yesterday'') = None
   \<and> mvrv_record fromisoformat_v37 (JObj malformed_fields) = Inl invalid_timestamp
   \<and> paginate_coinmetrics fromisoformat_v37 (Suc 0)
         (page_of_rows ([good_row] @ JObj malformed_fields # [good_row]))
         (mvrv_base_url (2024, 1, 1) (2024, 2, 1)) (mvrv_base_url (2024, 1, 1) (2024, 2, 1))
       = Some (Inl invalid_timestamp)
   \<and> fetch_mvrv_timeseries fromisoformat_v37 (Suc 0)
         (page_of_rows ([good_row] @ JObj malformed_fields # [good_row])) (2024, 1, 1) (2024, 2, 1)
       = Some (Inl invalid_timestamp)
   \<and> fetch_mvrv_timeseries fromisoformat_v37 2 example_mvrv_server (2024, 1, 1) (2024, 2, 1)
       = Some (Inr example_mvrv)
   \<and> (\<exists>raw. yielded_rows 2 example_mvrv_server (mvrv_base_url (2024, 1, 1) (2024, 2, 1))
                (mvrv_base_url (2024, 1, 1) (2024, 2, 1)) = Some raw
              \<and> length example_mvrv = length raw
              \<and> list_all (\<lambda>x. row_date fromisoformat_v37 x \<noteq> None) raw)"
proof -
  note t = mvrv_timestamp_required [where parse = fromisoformat_v37]
  note t3 = t [THEN conjunct2, THEN conjunct2]
  note t5 = t3 [THEN conjunct2, THEN conjunct2]
  have malformed:
    "lookup malformed_fields ''time'' = Some (JStr ''yesterday'')
     \<and> fromisoformat_v37 (replace ''Z'' ''+00:00'' ''yesterday'') = None"
    by (intro conjI) (rule malformed_time_eval malformed_parse_eval)+
  note bad = t3 [THEN conjunct2, THEN conjunct1, THEN mp, OF malformed]
  have page:
    "request_json (page_of_rows ([good_row] @ JObj malformed_fields # [good_row])) u
       = Inr (JObj [(''data'', JArr ([good_row] @ JObj malformed_fields # [good_row]))])
     \<and> dict_get_default (JObj [(''data'', JArr ([good_row] @ JObj malformed_fields # [good_row]))])
         ''data'' (JArr [])
       = Inr (JArr ([good_row] @ JObj malformed_fields # [good_row]))
     \<and> mvrv_records fromisoformat_v37 [good_row] = Inr [good_record]
     \<and> mvrv_record fromisoformat_v37 (JObj malformed_fields) = Inl invalid_timestamp" for u
    by (intro conjI) (rule page_request_eval page_data_eval good_rows_eval bad)+
  show ?thesis
    by (intro conjI)
      (rule good_row_eval no_Z_eval time_missing_eval malformed_time_eval malformed_parse_eval
        mvrv_eval bad
        t [THEN conjunct1, THEN mp, OF good_row_eval]
        t [THEN conjunct2, THEN conjunct1, THEN mp, OF no_Z_eval]
        t3 [THEN conjunct1, THEN mp, OF time_missing_eval]
        t5 [THEN conjunct1, THEN mp, OF page]
        t5 [THEN conjunct2, THEN conjunct1, THEN mp, OF page]
        t5 [THEN conjunct2, THEN conjunct2, THEN mp, OF mvrv_eval])+
qed

end
